theory Spec2Isabelle
  imports Main "HOL-Library.Word"
begin

unbundle bit_operations_syntax

section \<open>Go library functions used by faketree\<close>

text \<open>
  Go strings are byte sequences; they are modelled as \<open>string\<close> (a list of 8-bit
  characters). The functions of package \<open>strings\<close> that the mount-option code calls
  are written out here.
\<close>

text \<open>
  \<open>strings.Split(s, sep)\<close> for a one-byte separator. The result always has at least
  one field, so the first branch of the case distinction is never taken.
\<close>

fun Split :: "string \<Rightarrow> char \<Rightarrow> string list" where
  "Split [] c = [[]]"
| "Split (x # xs) c =
     (case Split xs c of
        [] \<Rightarrow> [[x]]
      | f # fs \<Rightarrow> if x = c then [] # f # fs else (x # f) # fs)"

text \<open>\<open>strings.Join(elems, sep)\<close> for a one-byte separator.\<close>

fun Join :: "string list \<Rightarrow> char \<Rightarrow> string" where
  "Join [] c = []"
| "Join [x] c = x"
| "Join (x # y # ys) c = x @ c # Join (y # ys) c"

text \<open>
  \<open>strings.SplitN(s, sep, n)\<close> for a one-byte separator and \<open>n \<ge> 0\<close>: at most
  \<open>n\<close> fields, the last one being the unsplit remainder.
\<close>

fun SplitN :: "string \<Rightarrow> char \<Rightarrow> nat \<Rightarrow> string list" where
  "SplitN s c 0 = []"
| "SplitN s c (Suc 0) = [s]"
| "SplitN s c (Suc (Suc n)) =
     (if c \<in> set s
      then takeWhile (\<lambda>x. x \<noteq> c) s # SplitN (tl (dropWhile (\<lambda>x. x \<noteq> c) s)) c (Suc n)
      else [s])"

definition HasPrefix :: "string \<Rightarrow> string \<Rightarrow> bool" where
  "HasPrefix s p = (take (length p) s = p)"

definition TrimPrefix :: "string \<Rightarrow> string \<Rightarrow> string" where
  "TrimPrefix s p = (if HasPrefix s p then drop (length p) s else s)"

text \<open>
  \<open>strings.TrimSpace\<close> removes leading and trailing Unicode white space. The white
  space code points (\<open>unicode.IsSpace\<close>) are listed by their UTF-8 encodings; a byte
  sequence that is not one of them decodes to a rune that is not white space (or to
  \<open>RuneError\<close>), and trimming stops there.
\<close>

definition space_runes :: "string list" where
  "space_runes =
    [[CHR 0x09], [CHR 0x0A], [CHR 0x0B], [CHR 0x0C], [CHR 0x0D], [CHR 0x20],
     [CHR 0xC2, CHR 0x85], [CHR 0xC2, CHR 0xA0],
     [CHR 0xE1, CHR 0x9A, CHR 0x80],
     [CHR 0xE2, CHR 0x80, CHR 0x80], [CHR 0xE2, CHR 0x80, CHR 0x81],
     [CHR 0xE2, CHR 0x80, CHR 0x82], [CHR 0xE2, CHR 0x80, CHR 0x83],
     [CHR 0xE2, CHR 0x80, CHR 0x84], [CHR 0xE2, CHR 0x80, CHR 0x85],
     [CHR 0xE2, CHR 0x80, CHR 0x86], [CHR 0xE2, CHR 0x80, CHR 0x87],
     [CHR 0xE2, CHR 0x80, CHR 0x88], [CHR 0xE2, CHR 0x80, CHR 0x89],
     [CHR 0xE2, CHR 0x80, CHR 0x8A],
     [CHR 0xE2, CHR 0x80, CHR 0xA8], [CHR 0xE2, CHR 0x80, CHR 0xA9],
     [CHR 0xE2, CHR 0x80, CHR 0xAF],
     [CHR 0xE2, CHR 0x81, CHR 0x9F],
     [CHR 0xE3, CHR 0x80, CHR 0x80]]"

text \<open>The length of the white-space rune that \<open>s\<close> starts with, 0 when there is none.\<close>

definition lead_space :: "string list \<Rightarrow> string \<Rightarrow> nat" where
  "lead_space tab s =
     (case find (\<lambda>r. take (length r) s = r) tab of None \<Rightarrow> 0 | Some r \<Rightarrow> length r)"

function trim_lead :: "string list \<Rightarrow> string \<Rightarrow> string" where
  "trim_lead tab s =
     (if lead_space tab s = 0 \<or> s = [] then s else trim_lead tab (drop (lead_space tab s) s))"
  by pat_completeness auto
termination
  by (relation "measure (\<lambda>(tab, s). length s)") auto

definition TrimLeftSpace :: "string \<Rightarrow> string" where
  "TrimLeftSpace s = trim_lead space_runes s"

definition TrimRightSpace :: "string \<Rightarrow> string" where
  "TrimRightSpace s = rev (trim_lead (map rev space_runes) (rev s))"

definition TrimSpace :: "string \<Rightarrow> string" where
  "TrimSpace s = TrimRightSpace (TrimLeftSpace s)"

section \<open>Mount options\<close>

type_synonym uintptr = "64 word"

record MountOption =
  Name :: string
  Value :: uintptr

type_synonym MountOptions = "MountOption list"

text \<open>The \<open>MS_*\<close> constants of package \<open>syscall\<close> on Linux.\<close>

definition MS_RDONLY :: uintptr where "MS_RDONLY = 0x1"
definition MS_NOSUID :: uintptr where "MS_NOSUID = 0x2"
definition MS_NODEV :: uintptr where "MS_NODEV = 0x4"
definition MS_NOEXEC :: uintptr where "MS_NOEXEC = 0x8"
definition MS_SYNCHRONOUS :: uintptr where "MS_SYNCHRONOUS = 0x10"
definition MS_REMOUNT :: uintptr where "MS_REMOUNT = 0x20"
definition MS_MANDLOCK :: uintptr where "MS_MANDLOCK = 0x40"
definition MS_DIRSYNC :: uintptr where "MS_DIRSYNC = 0x80"
definition MS_NOATIME :: uintptr where "MS_NOATIME = 0x400"
definition MS_NODIRATIME :: uintptr where "MS_NODIRATIME = 0x800"
definition MS_BIND :: uintptr where "MS_BIND = 0x1000"
definition MS_MOVE :: uintptr where "MS_MOVE = 0x2000"
definition MS_REC :: uintptr where "MS_REC = 0x4000"
definition MS_SILENT :: uintptr where "MS_SILENT = 0x8000"
definition MS_UNBINDABLE :: uintptr where "MS_UNBINDABLE = 0x20000"
definition MS_PRIVATE :: uintptr where "MS_PRIVATE = 0x40000"
definition MS_SLAVE :: uintptr where "MS_SLAVE = 0x80000"
definition MS_SHARED :: uintptr where "MS_SHARED = 0x100000"
definition MS_RELATIME :: uintptr where "MS_RELATIME = 0x200000"
definition MS_STRICTATIME :: uintptr where "MS_STRICTATIME = 0x1000000"

lemmas MS_defs =
  MS_RDONLY_def MS_NOSUID_def MS_NODEV_def MS_NOEXEC_def MS_SYNCHRONOUS_def
  MS_REMOUNT_def MS_MANDLOCK_def MS_DIRSYNC_def MS_NOATIME_def MS_NODIRATIME_def
  MS_BIND_def MS_MOVE_def MS_REC_def MS_SILENT_def MS_UNBINDABLE_def MS_PRIVATE_def
  MS_SLAVE_def MS_SHARED_def MS_RELATIME_def MS_STRICTATIME_def

definition KnownOptions :: MountOptions where
  "KnownOptions =
    [\<lparr>Name = ''dirsync'', Value = MS_DIRSYNC\<rparr>,
     \<lparr>Name = ''mandlock'', Value = MS_MANDLOCK\<rparr>,
     \<lparr>Name = ''noatime'', Value = MS_NOATIME\<rparr>,
     \<lparr>Name = ''nodev'', Value = MS_NODEV\<rparr>,
     \<lparr>Name = ''nodiratime'', Value = MS_NODIRATIME\<rparr>,
     \<lparr>Name = ''noexec'', Value = MS_NOEXEC\<rparr>,
     \<lparr>Name = ''nosuid'', Value = MS_NOSUID\<rparr>,
     \<lparr>Name = ''ro'', Value = MS_RDONLY\<rparr>,
     \<lparr>Name = ''recursive'', Value = MS_REC\<rparr>,
     \<lparr>Name = ''relatime'', Value = MS_RELATIME\<rparr>,
     \<lparr>Name = ''silent'', Value = MS_SILENT\<rparr>,
     \<lparr>Name = ''strictatime'', Value = MS_STRICTATIME\<rparr>,
     \<lparr>Name = ''sync'', Value = MS_SYNCHRONOUS\<rparr>,
     \<lparr>Name = ''remount'', Value = MS_REMOUNT\<rparr>,
     \<lparr>Name = ''bind'', Value = MS_BIND\<rparr>,
     \<lparr>Name = ''shared'', Value = MS_SHARED\<rparr>,
     \<lparr>Name = ''private'', Value = MS_PRIVATE\<rparr>,
     \<lparr>Name = ''slave'', Value = MS_SLAVE\<rparr>,
     \<lparr>Name = ''unbindable'', Value = MS_UNBINDABLE\<rparr>,
     \<lparr>Name = ''move'', Value = MS_MOVE\<rparr>]"

definition DefaultMountFlags :: uintptr where
  "DefaultMountFlags = MS_BIND OR MS_REC OR MS_PRIVATE"

text \<open>\<open>MountOptions.Find\<close>: the first option with the given name, \<open>None\<close> for nil.\<close>

fun Find :: "MountOptions \<Rightarrow> string \<Rightarrow> MountOption option" where
  "Find [] option = None"
| "Find (opt # mo) option = (if Name opt = option then Some opt else Find mo option)"

text \<open>\<open>MountOptions.Serialize\<close>.\<close>

definition Serialize :: "MountOptions \<Rightarrow> uintptr \<Rightarrow> string \<Rightarrow> string \<Rightarrow> string" where
  "Serialize mo flags fstype fsdata =
     Join ((if flags \<noteq> DefaultMountFlags
            then map Name (filter (\<lambda>opt. (Value opt AND flags) > 0) mo) else [])
           @ (if fstype \<noteq> [] then [''type='' @ fstype] else [])
           @ (if fsdata \<noteq> [] then [''data='' @ fsdata] else []))
          CHR '',''"

section \<open>Errors\<close>

text \<open>
  Go error values. \<open>Errorf fmt args\<close> is the result of \<open>fmt.Errorf\<close>: the format
  string and its operands. An operand is a string (\<open>%s\<close> of a string or of a value
  with a \<open>String\<close> method), an integer (\<open>%d\<close>), an error that is printed
  (\<open>%v\<close>, \<open>%s\<close>) or an error that is wrapped (\<open>%w\<close>); an error operand may be
  nil. \<open>Errno\<close> is a \<open>syscall.Errno\<close>, \<open>ExitError\<close> an \<open>*exec.ExitError\<close> with its
  \<open>ExitCode()\<close>, \<open>ExitStatus\<close> the type of that name in faketree, \<open>ErrHelp\<close> is
  \<open>pflag.ErrHelp\<close>.
\<close>

datatype error =
    Errno nat
  | ExitError int
  | ExitStatus int
  | ErrHelp
  | MultiError "error list"
  | Errorf string "arg list"
and arg =
    ArgS string
  | ArgD int
  | ArgV "error option"
  | ArgW "error option"

text \<open>
  Modelled from the spec: \<open>multierror.New\<close> (package \<open>lib/multierror\<close> is not among the
  sources). Unknown flag tokens "produce structured errors": no error at all (nil) for an
  empty list, and one error holding all of them otherwise.
\<close>

definition multierror_New :: "error list \<Rightarrow> error option" where
  "multierror_New errs = (if errs = [] then None else Some (MultiError errs))"

section \<open>Parsing and printing mount specifications\<close>

text \<open>
  The loop of \<open>MountOptions.Parse\<close> over the remaining fields; \<open>ix\<close> is the index of
  the first of them. The \<open>break\<close> at a \<open>data=\<close> token is the branch without a
  recursive call. As in the source, the lookup goes to \<open>KnownOptions\<close>, not to the
  receiver.
\<close>

fun Parse_loop ::
  "nat \<Rightarrow> string list \<Rightarrow> uintptr \<times> string \<times> string \<times> error list
     \<Rightarrow> uintptr \<times> string \<times> string \<times> error list" where
  "Parse_loop ix [] acc = acc"
| "Parse_loop ix (f # flds) (fsflags, fstype, fsdata, errs) =
     (let field = TrimSpace f in
      if length (TrimPrefix field ''type='') < length field
      then Parse_loop (Suc ix) flds (fsflags, TrimPrefix field ''type='', fsdata, errs)
      else if length (TrimPrefix field ''data='') < length field
      then (fsflags, fstype, Join (TrimPrefix field ''data='' # flds) CHR '','', errs)
      else (case Find KnownOptions field of
              None \<Rightarrow>
                Parse_loop (Suc ix) flds
                  (fsflags, fstype, fsdata,
                   errs @ [Errorf ''file system option #%d is unknown: %s''
                             [ArgD (int ix), ArgS field]])
            | Some option \<Rightarrow>
                Parse_loop (Suc ix) flds (fsflags OR Value option, fstype, fsdata, errs)))"

definition Parse :: "MountOptions \<Rightarrow> string \<Rightarrow> uintptr \<times> string \<times> string \<times> error option" where
  "Parse mo options =
     (case Parse_loop 0 (Split options CHR '','') (0, [], [], []) of
        (fsflags, fstype, fsdata, errs) \<Rightarrow> (fsflags, fstype, fsdata, multierror_New errs))"

record MountFlags =
  Source :: string
  Target :: string
  Flags :: uintptr
  Fstype :: string
  Data :: string

definition NewMountFlags :: "string \<Rightarrow> error + MountFlags" where
  "NewMountFlags mount =
     (case SplitN mount CHR '':'' 3 of
        [source, target, options] \<Rightarrow>
          (case Parse KnownOptions options of
             (flags, fstype, data, Some err) \<Rightarrow> Inl err
           | (flags, fstype, data, None) \<Rightarrow>
               Inr \<lparr>Source = source, Target = target, Flags = flags,
                    Fstype = fstype, Data = data\<rparr>)
      | [source, target] \<Rightarrow>
          Inr \<lparr>Source = source, Target = target, Flags = DefaultMountFlags,
               Fstype = [], Data = []\<rparr>
      | _ \<Rightarrow> Inl (Errorf ''invalid mount: %s - format is /source/path:/dest/path[:options]?''
                   [ArgS mount]))"

text \<open>\<open>MountFlags.String\<close>, the format \<open>"%s:%s%s"\<close> written out.\<close>

definition String :: "MountFlags \<Rightarrow> string" where
  "String mf =
     (let options = Serialize KnownOptions (Flags mf) (Fstype mf) (Data mf);
          options = (if options \<noteq> [] then CHR '':'' # options else options)
      in Source mf @ CHR '':'' # Target mf @ options)"

section \<open>What an options string means\<close>

text \<open>
  A description of the result of \<open>MountOptions.Parse\<close> that does not follow the loop:
  the tokens are the white-space-trimmed comma-separated fields; the first token that
  starts with \<open>data=\<close> ends the token stream.
\<close>

definition is_type_token :: "string \<Rightarrow> bool" where
  "is_type_token t = HasPrefix t ''type=''"

definition is_data_token :: "string \<Rightarrow> bool" where
  "is_data_token t = HasPrefix t ''data=''"

definition is_unknown_token :: "string \<Rightarrow> bool" where
  "is_unknown_token t =
     (\<not> is_type_token t \<and> \<not> is_data_token t \<and> Find KnownOptions t = None)"

text \<open>The fields in front of the first \<open>data=\<close> token.\<close>

definition fields_before_data :: "string list \<Rightarrow> string list" where
  "fields_before_data flds = takeWhile (\<lambda>f. \<not> is_data_token (TrimSpace f)) flds"

text \<open>Bitwise or of the values of all tokens that name a known option.\<close>

definition flags_of_tokens :: "string list \<Rightarrow> uintptr" where
  "flags_of_tokens ts =
     foldr (\<lambda>opt acc. Value opt OR acc)
       (List.map_filter (Find KnownOptions) (filter (\<lambda>t. \<not> is_type_token t) ts)) 0"

text \<open>The value of the last \<open>type=\<close> token, or \<open>dflt\<close> when there is none.\<close>

definition fstype_of_tokens :: "string \<Rightarrow> string list \<Rightarrow> string" where
  "fstype_of_tokens dflt ts =
     (case rev (filter is_type_token ts) of [] \<Rightarrow> dflt | t # _ \<Rightarrow> drop 5 t)"

text \<open>The unknown tokens, each with its position, counted from \<open>ix\<close>.\<close>

definition unknown_tokens :: "nat \<Rightarrow> string list \<Rightarrow> (nat \<times> string) list" where
  "unknown_tokens ix ts = filter (\<lambda>(i, t). is_unknown_token t) (enumerate ix ts)"

text \<open>
  The data: the first \<open>data=\<close> token without its prefix, followed by all later fields
  as they are, commas included.
\<close>

definition data_of_fields :: "string \<Rightarrow> string list \<Rightarrow> string" where
  "data_of_fields dflt flds =
     (case dropWhile (\<lambda>f. \<not> is_data_token (TrimSpace f)) flds of
        [] \<Rightarrow> dflt
      | f # rest \<Rightarrow> Join (drop 5 (TrimSpace f) # rest) CHR '','')"

text \<open>The error that reports the unknown token \<open>t\<close> at position \<open>i\<close>.\<close>

definition unknown_option :: "nat \<times> string \<Rightarrow> error" where
  "unknown_option = (\<lambda>(i, t). Errorf ''file system option #%d is unknown: %s''
                                [ArgD (int i), ArgS t])"

section \<open>Wait statuses, exit codes and the supervisor\<close>

text \<open>
  \<open>syscall.WaitStatus\<close> on Linux is a \<open>uint32\<close>; its methods are written out with
  their constants (\<open>mask = 0x7F\<close>, \<open>core = 0x80\<close>, \<open>stopped = 0x7F\<close>, \<open>shift = 8\<close>).
  Process ids, signal numbers and exit codes are Go \<open>int\<close>s.
\<close>

type_synonym WaitStatus = "32 word"

definition Exited :: "WaitStatus \<Rightarrow> bool" where
  "Exited w = (w AND 0x7F = 0)"

definition Stopped :: "WaitStatus \<Rightarrow> bool" where
  "Stopped w = (w AND 0xFF = 0x7F)"

definition Continued :: "WaitStatus \<Rightarrow> bool" where
  "Continued w = (w = 0xFFFF)"

definition Signaled :: "WaitStatus \<Rightarrow> bool" where
  "Signaled w = (w AND 0x7F \<noteq> 0x7F \<and> w AND 0x7F \<noteq> 0)"

definition Signal :: "WaitStatus \<Rightarrow> int" where
  "Signal w = (if \<not> Signaled w then -1 else uint (w AND 0x7F))"

definition CoreDump :: "WaitStatus \<Rightarrow> bool" where
  "CoreDump w = (Signaled w \<and> w AND 0x80 \<noteq> 0)"

definition WaitStatus_ExitStatus :: "WaitStatus \<Rightarrow> int" where
  "WaitStatus_ExitStatus w = (if \<not> Exited w then -1 else uint (drop_bit 8 w AND 0xFF))"

definition SIGKILL :: int where "SIGKILL = 9"
definition SIGTERM :: int where "SIGTERM = 15"
definition ECHILD :: nat where "ECHILD = 10"

definition kDefaultExit :: int where "kDefaultExit = 125"

text \<open>
  \<open>errors.Is(err, syscall.ECHILD)\<close> and \<open>errors.As\<close> for the two exit-code carrying
  types: the error itself first, then the errors it wraps with \<open>%w\<close>, in order. The
  errors of a \<open>MultiError\<close> are system-call and parse errors and are not searched.
\<close>

fun errors_Is_Errno :: "error \<Rightarrow> nat \<Rightarrow> bool"
  and args_Is_Errno :: "arg list \<Rightarrow> nat \<Rightarrow> bool" where
  "errors_Is_Errno (Errno m) n = (m = n)"
| "errors_Is_Errno (Errorf f args) n = args_Is_Errno args n"
| "errors_Is_Errno (ExitError c) n = False"
| "errors_Is_Errno (ExitStatus c) n = False"
| "errors_Is_Errno ErrHelp n = False"
| "errors_Is_Errno (MultiError errs) n = False"
| "args_Is_Errno [] n = False"
| "args_Is_Errno (ArgW (Some e) # args) n = (errors_Is_Errno e n \<or> args_Is_Errno args n)"
| "args_Is_Errno (ArgW None # args) n = args_Is_Errno args n"
| "args_Is_Errno (ArgS s # args) n = args_Is_Errno args n"
| "args_Is_Errno (ArgD d # args) n = args_Is_Errno args n"
| "args_Is_Errno (ArgV e # args) n = args_Is_Errno args n"

fun errors_As_ExitError :: "error \<Rightarrow> int option"
  and args_As_ExitError :: "arg list \<Rightarrow> int option" where
  "errors_As_ExitError (ExitError c) = Some c"
| "errors_As_ExitError (Errorf f args) = args_As_ExitError args"
| "errors_As_ExitError (Errno m) = None"
| "errors_As_ExitError (ExitStatus c) = None"
| "errors_As_ExitError ErrHelp = None"
| "errors_As_ExitError (MultiError errs) = None"
| "args_As_ExitError [] = None"
| "args_As_ExitError (ArgW (Some e) # args) =
     (case errors_As_ExitError e of Some c \<Rightarrow> Some c | None \<Rightarrow> args_As_ExitError args)"
| "args_As_ExitError (ArgW None # args) = args_As_ExitError args"
| "args_As_ExitError (ArgS s # args) = args_As_ExitError args"
| "args_As_ExitError (ArgD d # args) = args_As_ExitError args"
| "args_As_ExitError (ArgV e # args) = args_As_ExitError args"

fun errors_As_ExitStatus :: "error \<Rightarrow> int option"
  and args_As_ExitStatus :: "arg list \<Rightarrow> int option" where
  "errors_As_ExitStatus (ExitStatus c) = Some c"
| "errors_As_ExitStatus (Errorf f args) = args_As_ExitStatus args"
| "errors_As_ExitStatus (Errno m) = None"
| "errors_As_ExitStatus (ExitError c) = None"
| "errors_As_ExitStatus ErrHelp = None"
| "errors_As_ExitStatus (MultiError errs) = None"
| "args_As_ExitStatus [] = None"
| "args_As_ExitStatus (ArgW (Some e) # args) =
     (case errors_As_ExitStatus e of Some c \<Rightarrow> Some c | None \<Rightarrow> args_As_ExitStatus args)"
| "args_As_ExitStatus (ArgW None # args) = args_As_ExitStatus args"
| "args_As_ExitStatus (ArgS s # args) = args_As_ExitStatus args"
| "args_As_ExitStatus (ArgD d # args) = args_As_ExitStatus args"
| "args_As_ExitStatus (ArgV e # args) = args_As_ExitStatus args"

text \<open>
  \<open>exit(err)\<close>: the value handed to \<open>os.Exit\<close>. A help request and every other error
  end with \<open>kDefaultExit\<close>.
\<close>

definition exit :: "error option \<Rightarrow> int" where
  "exit err =
     (case err of
        None \<Rightarrow> 0
      | Some e \<Rightarrow>
          (case errors_As_ExitError e of
             Some c \<Rightarrow> c
           | None \<Rightarrow>
               (case errors_As_ExitStatus e of
                  Some c \<Rightarrow> c
                | None \<Rightarrow> kDefaultExit)))"

text \<open>
  The exit status that the parent of a process reads after \<open>os.Exit(code)\<close>: the kernel
  keeps the low eight bits.
\<close>

definition exit_status :: "int \<Rightarrow> int" where
  "exit_status code = code mod 256"

text \<open>What the supervisor does to other processes.\<close>

datatype action =
    Kill int int
  | KillAfter int int int

text \<open>
  One answer of the kernel to \<open>syscall.Wait4(-1, &status, options, &rusage)\<close>: a pid and a
  status, or an error. The answers to the successive calls are a list; when the list is
  used up the call never returns, and the result is \<open>None\<close>.
\<close>

datatype wait4_result = Wait4 int WaitStatus | Wait4Err error

text \<open>
  \<open>WaitChildren\<close>. The state is the remembered \<open>perr\<close> and the actions taken so far.
  \<open>WaitChildren_outer\<close> is the blocking call at the head of the outer loop,
  \<open>WaitChildren_inner\<close> the loop \<open>for pid != 0\<close> with the non-blocking call at its end.
  \<open>KillAfter timeout (-1) SIGKILL\<close> stands for the goroutine that sleeps and then kills.
\<close>

definition childerr :: "error \<Rightarrow> error \<Rightarrow> error" where
  "childerr perr err = (if errors_Is_Errno err ECHILD then perr else err)"

fun WaitChildren_outer ::
    "int \<Rightarrow> int \<Rightarrow> bool \<Rightarrow> wait4_result list \<Rightarrow> error \<times> action list
       \<Rightarrow> (error \<times> action list) option"
  and WaitChildren_inner ::
    "int \<Rightarrow> int \<Rightarrow> bool \<Rightarrow> int \<Rightarrow> WaitStatus \<Rightarrow> wait4_result list \<Rightarrow> error \<times> action list
       \<Rightarrow> (error \<times> action list) option" where
  "WaitChildren_outer timeout process termOnWait [] (perr, acts) = None"
| "WaitChildren_outer timeout process termOnWait (Wait4Err err # ks) (perr, acts) =
     Some (childerr perr err, acts)"
| "WaitChildren_outer timeout process termOnWait (Wait4 pid status # ks) (perr, acts) =
     WaitChildren_inner timeout process termOnWait pid status ks (perr, acts)"
| "WaitChildren_inner timeout process termOnWait pid status ks (perr, acts) =
     (if pid \<noteq> 0 then
        (case (if pid = process \<and> \<not> Stopped status \<and> \<not> Continued status
               then ((if Exited status then ExitStatus (WaitStatus_ExitStatus status)
                      else ExitStatus (uint status)),
                     acts @ (if termOnWait then [Kill (-1) SIGTERM] else [])
                          @ (if timeout \<noteq> 0 then [KillAfter timeout (-1) SIGKILL] else []))
               else (perr, acts)) of
           (perr', acts') \<Rightarrow>
             (case ks of
                [] \<Rightarrow> None
              | Wait4Err err # ks' \<Rightarrow> Some (childerr perr' err, acts')
              | Wait4 pid' status' # ks' \<Rightarrow>
                  WaitChildren_inner timeout process termOnWait pid' status' ks' (perr', acts')))
      else WaitChildren_outer timeout process termOnWait ks (perr, acts))"

definition WaitChildren ::
    "int \<Rightarrow> int \<Rightarrow> bool \<Rightarrow> wait4_result list \<Rightarrow> (error \<times> action list) option" where
  "WaitChildren timeout process termOnWait ks =
     WaitChildren_outer timeout process termOnWait ks (Errno ECHILD, [])"

text \<open>
  \<open>cmd.Wait()\<close> of \<open>os/exec\<close> for a child whose wait status is \<open>status\<close>: nil for a
  successful exit, otherwise an \<open>*exec.ExitError\<close>, whose \<open>ExitCode()\<close> is
  \<open>status.ExitStatus()\<close>, that is -1 for a child that did not exit normally.
\<close>

definition cmd_Wait :: "WaitStatus \<Rightarrow> error option" where
  "cmd_Wait status =
     (if WaitStatus_ExitStatus status = 0 then None
      else Some (ExitError (WaitStatus_ExitStatus status)))"

text \<open>
  \<open>PropagateSignals(c, pid)\<close>: every signal received on the channel is sent to \<open>pid\<close>.
\<close>

definition PropagateSignals :: "int list \<Rightarrow> int \<Rightarrow> action list" where
  "PropagateSignals c pid = map (\<lambda>s. Kill pid s) c"

text \<open>
  The world a supervisor runs in: the result of \<open>cmd.Start()\<close> (an error, or the pid of
  the direct child), the signals delivered to the supervisor, the wait status of the
  direct child (read by \<open>cmd.Wait()\<close>) and the answers to its \<open>Wait4\<close> calls.
\<close>

record world =
  start :: "error + int"
  signals :: "int list"
  child_status :: WaitStatus
  wait4_answers :: "wait4_result list"

text \<open>
  The outcome of \<open>RunAndWait\<close>: the code given to \<open>os.Exit\<close> (\<open>None\<close> when the wait
  never returns), the kills of the signal-forwarding goroutine, and the actions of
  \<open>WaitChildren\<close>.
\<close>

record outcome =
  exit_code :: "int option"
  forwarded :: "action list"
  sweeps :: "action list"

definition RunAndWait :: "bool \<Rightarrow> bool \<Rightarrow> bool \<Rightarrow> int \<Rightarrow> world \<Rightarrow> int \<Rightarrow> outcome" where
  "RunAndWait wait propagate tow timeout w pid =
     (case start w of
        Inl err \<Rightarrow> \<lparr>exit_code = Some (exit (Some err)), forwarded = [], sweeps = []\<rparr>
      | Inr child \<Rightarrow>
          (let fwd = (if propagate
                      then PropagateSignals (signals w) (if pid = 0 then child else pid)
                      else [])
           in if wait
              then (case WaitChildren timeout child tow (wait4_answers w) of
                      None \<Rightarrow> \<lparr>exit_code = None, forwarded = fwd, sweeps = []\<rparr>
                    | Some (err, acts) \<Rightarrow>
                        \<lparr>exit_code = Some (exit (Some err)), forwarded = fwd, sweeps = acts\<rparr>)
              else \<lparr>exit_code = Some (exit (cmd_Wait (child_status w))),
                    forwarded = fwd, sweeps = []\<rparr>))"

text \<open>
  Answers of \<open>Wait4\<close> that are all reports of a process (a pid of 0 is the non-blocking
  call finding nothing to reap), none of them an error.
\<close>

definition reports_only :: "wait4_result list \<Rightarrow> bool" where
  "reports_only ks =
     list_all (\<lambda>k. case k of Wait4 pid status \<Rightarrow> True | Wait4Err err \<Rightarrow> False) ks"

text \<open>
  Reports among which \<open>WaitChildren\<close> finds no end of \<open>process\<close>: each is about another
  pid, or says that \<open>process\<close> was stopped or continued.
\<close>

definition no_exit_of :: "int \<Rightarrow> wait4_result list \<Rightarrow> bool" where
  "no_exit_of process ks =
     list_all (\<lambda>k. case k of
                      Wait4 pid status \<Rightarrow> pid \<noteq> process \<or> Stopped status \<or> Continued status
                    | Wait4Err err \<Rightarrow> False) ks"

text \<open>The exit status of the supervisor process itself, as its parent reads it.\<close>

definition launcher_status :: "outcome \<Rightarrow> int option" where
  "launcher_status out = map_option exit_status (exit_code out)"

section \<open>Configuration and the stages\<close>

text \<open>
  The \<open>Flags\<close> struct. \<open>Perms\<close> is a \<open>uint32\<close>, \<open>Timeout\<close> a \<open>time.Duration\<close>
  (nanoseconds), \<open>Uid\<close> and \<open>Gid\<close> are Go \<open>int\<close>s.
\<close>

record Flags =
  Fail :: bool
  Root :: bool
  Hostname :: string
  Chdir :: string
  Faketree :: string
  Perms :: "32 word"
  Proc :: bool
  Wait :: bool
  Propagate :: bool
  TermOnWait :: bool
  Timeout :: int
  Uid :: int
  Gid :: int
  Mount :: "MountFlags list"

text \<open>
  The operating system as the stages use it. The state of the system is a value of an
  arbitrary type \<open>'w\<close>; a call that can change it returns the new state together with its
  error (\<open>None\<close> for nil). \<open>k_Stat\<close> answers \<open>info.IsDir()\<close>. \<open>k_Exec\<close> returns only
  when \<open>syscall.Exec\<close> fails.
\<close>

record 'w kernel =
  k_RealPath :: "'w \<Rightarrow> string \<Rightarrow> error + string"
  k_Stat :: "'w \<Rightarrow> string \<Rightarrow> error + bool"
  k_Dir :: "string \<Rightarrow> string"
  k_MkdirAll :: "'w \<Rightarrow> string \<Rightarrow> 32 word \<Rightarrow> 'w \<times> error option"
  k_OpenFile :: "'w \<Rightarrow> string \<Rightarrow> 32 word \<Rightarrow> 'w \<times> error option"
  k_Mount :: "'w \<Rightarrow> string \<Rightarrow> string \<Rightarrow> string \<Rightarrow> uintptr \<Rightarrow> string \<Rightarrow> 'w \<times> error option"
  k_Sethostname :: "'w \<Rightarrow> string \<Rightarrow> 'w \<times> error option"
  k_Setenv :: "'w \<Rightarrow> string \<Rightarrow> string \<Rightarrow> 'w"
  k_Getenv :: "'w \<Rightarrow> string \<Rightarrow> string"
  k_Environ :: "'w \<Rightarrow> string list"
  k_Setuid :: "'w \<Rightarrow> int \<Rightarrow> 'w \<times> error option"
  k_Setgid :: "'w \<Rightarrow> int \<Rightarrow> 'w \<times> error option"
  k_Chdir :: "'w \<Rightarrow> string \<Rightarrow> 'w \<times> error option"
  k_LookPath :: "'w \<Rightarrow> string \<Rightarrow> error + string"
  k_Exec :: "'w \<Rightarrow> string \<Rightarrow> string list \<Rightarrow> string list \<Rightarrow> error option"

text \<open>
  What a stage does, in order: the messages it logs and the calls it makes. A stage runs
  on a pair of the system state and the events so far; it ends either with an exit code
  (\<open>Inl\<close>) or by going on (\<open>Inr\<close>).
\<close>

datatype event =
    Logged string "arg list"
  | HelpScreen
  | SysSethostname string
  | SysSetenv string string
  | SysMkdirAll string "32 word"
  | SysOpenFile string "32 word"
  | SysMount string string string uintptr string
  | SysSetuid int
  | SysSetgid int
  | SysChdir string
  | SysExec string "string list" "string list"

type_synonym 'w st = "'w \<times> event list"
type_synonym 'w run = "int \<times> 'w st + 'w st"

fun errors_Is_ErrHelp :: "error \<Rightarrow> bool"
  and args_Is_ErrHelp :: "arg list \<Rightarrow> bool" where
  "errors_Is_ErrHelp ErrHelp = True"
| "errors_Is_ErrHelp (Errorf f args) = args_Is_ErrHelp args"
| "errors_Is_ErrHelp (Errno m) = False"
| "errors_Is_ErrHelp (ExitError c) = False"
| "errors_Is_ErrHelp (ExitStatus c) = False"
| "errors_Is_ErrHelp (MultiError errs) = False"
| "args_Is_ErrHelp [] = False"
| "args_Is_ErrHelp (ArgW (Some e) # args) = (errors_Is_ErrHelp e \<or> args_Is_ErrHelp args)"
| "args_Is_ErrHelp (ArgW None # args) = args_Is_ErrHelp args"
| "args_Is_ErrHelp (ArgS s # args) = args_Is_ErrHelp args"
| "args_Is_ErrHelp (ArgD d # args) = args_Is_ErrHelp args"
| "args_Is_ErrHelp (ArgV e # args) = args_Is_ErrHelp args"

text \<open>
  \<open>exit(err)\<close> inside a stage: the exit code is \<open>exit err\<close>; an error that carries no exit
  code prints the help screen or is logged as \<open>FAILED\<close>.
\<close>

definition exit_stage :: "error option \<Rightarrow> 'w st \<Rightarrow> 'w run" where
  "exit_stage err st =
     (case st of (w, ev) \<Rightarrow>
        Inl (exit err,
             (w, ev @ (case err of
                         None \<Rightarrow> []
                       | Some e \<Rightarrow>
                           if errors_As_ExitError e \<noteq> None \<or> errors_As_ExitStatus e \<noteq> None
                           then []
                           else if errors_Is_ErrHelp e then [HelpScreen]
                           else [Logged ''FAILED: %v'' [ArgV (Some e)]]))))"

text \<open>\<open>Flags.LogOrFail\<close>.\<close>

definition LogOrFail :: "Flags \<Rightarrow> string \<Rightarrow> arg list \<Rightarrow> 'w st \<Rightarrow> 'w run" where
  "LogOrFail opts msg args st =
     (if Fail opts then exit_stage (Some (Errorf msg args)) st
      else (case st of (w, ev) \<Rightarrow> Inr (w, ev @ [Logged msg args])))"

text \<open>Sequencing: a stage that has exited does nothing more.\<close>

definition and_then :: "'w run \<Rightarrow> ('w st \<Rightarrow> 'w run) \<Rightarrow> 'w run" where
  "and_then r f = (case r of Inl x \<Rightarrow> Inl x | Inr st \<Rightarrow> f st)"











text \<open>\<open>DefaultShell\<close> and \<open>Exec\<close>. \<open>Inr\<close> is the state in which the new program runs.\<close>

definition DefaultShell :: "'w kernel \<Rightarrow> 'w \<Rightarrow> string" where
  "DefaultShell k w = (if k_Getenv k w ''SHELL'' = [] then ''/bin/sh'' else k_Getenv k w ''SHELL'')"

definition Exec :: "'w kernel \<Rightarrow> string list \<Rightarrow> 'w st \<Rightarrow> 'w run" where
  "Exec k args0 st =
     (case st of (w, ev) \<Rightarrow>
        (let args = (if args0 = [] then [DefaultShell k w, ''--norc'', ''--noprofile''] else args0)
         in case k_LookPath k w (hd args) of
              Inl err \<Rightarrow>
                exit_stage (Some (Errorf ''Error finding the %s command - %w''
                                    [ArgS (hd args), ArgW (Some err)])) st
            | Inr binary \<Rightarrow>
                (case k_Exec k w binary args (k_Environ k w @ [''FAKETREE=true'']) of
                   Some err \<Rightarrow>
                     exit_stage (Some (Errorf ''Error running the binary %s - %v command - %s''
                                         ([ArgS binary] @ map ArgS args @ [ArgV (Some err)])))
                       (w, ev @ [SysExec binary args (k_Environ k w @ [''FAKETREE=true''])])
                 | None \<Rightarrow>
                     Inr (w, ev @ [SysExec binary args (k_Environ k w @ [''FAKETREE=true''])]))))"

text \<open>The steps of \<open>initializePrivileges\<close> after the flags are parsed.\<close>

definition drop_uid :: "'w kernel \<Rightarrow> Flags \<Rightarrow> 'w st \<Rightarrow> 'w run" where
  "drop_uid k flags st =
     (case st of (w, ev) \<Rightarrow>
        (case k_Setuid k w (Uid flags) of
           (w', Some err) \<Rightarrow>
             LogOrFail flags ''Error changing to uid %d - %s\<newline>'' [ArgD (Uid flags), ArgV (Some err)]
               (w', ev @ [SysSetuid (Uid flags)])
         | (w', None) \<Rightarrow> Inr (w', ev @ [SysSetuid (Uid flags)])))"

definition drop_gid :: "'w kernel \<Rightarrow> Flags \<Rightarrow> 'w st \<Rightarrow> 'w run" where
  "drop_gid k flags st =
     (case st of (w, ev) \<Rightarrow>
        (case k_Setgid k w (Gid flags) of
           (w', Some err) \<Rightarrow>
             LogOrFail flags ''Error changing to gid %d - %s\<newline>'' [ArgD (Gid flags), ArgV (Some err)]
               (w', ev @ [SysSetgid (Gid flags)])
         | (w', None) \<Rightarrow> Inr (w', ev @ [SysSetgid (Gid flags)])))"

definition change_dir :: "'w kernel \<Rightarrow> Flags \<Rightarrow> 'w st \<Rightarrow> 'w run" where
  "change_dir k flags st =
     (case st of (w, ev) \<Rightarrow>
        if Chdir flags \<noteq> []
        then (case k_MkdirAll k w (Chdir flags) (Perms flags) of
                (w1, merr) \<Rightarrow>
                  (case k_Chdir k w1 (Chdir flags) of
                     (w2, Some err) \<Rightarrow>
                       exit_stage
                         (Some (Errorf (''Could not chdir to %s - as specified with --chdir - error was: %w. ''
                                        @ ''Attempting to create the directory resulted in %w'')
                                  [ArgS (Chdir flags), ArgW (Some err), ArgW merr]))
                         (w2, ev @ [SysMkdirAll (Chdir flags) (Perms flags), SysChdir (Chdir flags)])
                   | (w2, None) \<Rightarrow>
                       Inr (k_Setenv k w2 ''PWD'' (Chdir flags),
                            ev @ [SysMkdirAll (Chdir flags) (Perms flags), SysChdir (Chdir flags),
                                  SysSetenv ''PWD'' (Chdir flags)])))
        else Inr (w, ev))"

definition initializePrivileges :: "'w kernel \<Rightarrow> Flags \<Rightarrow> string list \<Rightarrow> 'w st \<Rightarrow> 'w run" where
  "initializePrivileges k flags left st =
     and_then (and_then (and_then (drop_uid k flags st) (drop_gid k flags)) (change_dir k flags))
       (Exec k left)"

text \<open>
  The supervisor calls of \<open>enterSystem\<close> and \<open>enterPrivileges\<close>, in the world of the
  child they start.
\<close>

definition enterSystem_supervise :: "Flags \<Rightarrow> world \<Rightarrow> outcome" where
  "enterSystem_supervise flags w = RunAndWait False (Propagate flags) False (Timeout flags) w 0"

definition enterPrivileges :: "Flags \<Rightarrow> world \<Rightarrow> outcome" where
  "enterPrivileges flags w =
     RunAndWait (Wait flags) (Propagate flags) (TermOnWait flags) (Timeout flags) w (-1)"







text \<open>A small system and a configuration, to run the stages on.\<close>

definition example_kernel :: "nat kernel" where
  "example_kernel =
     \<lparr>k_RealPath = (\<lambda>w p. if p = ''/missing'' then Inl (Errno 2)
                          else if p = ''/p'' then Inr ''/proc'' else Inr p),
      k_Stat = (\<lambda>w p. Inr True),
      k_Dir = (\<lambda>p. p),
      k_MkdirAll = (\<lambda>w p m. (w, None)),
      k_OpenFile = (\<lambda>w p m. (w, None)),
      k_Mount = (\<lambda>w s t f fl d. (Suc w, if t = ''/bad'' then Some (Errno 1) else None)),
      k_Sethostname = (\<lambda>w h. (w, None)),
      k_Setenv = (\<lambda>w n v. w),
      k_Getenv = (\<lambda>w n. []),
      k_Environ = (\<lambda>w. []),
      k_Setuid = (\<lambda>w u. (w, Some (Errno 1))),
      k_Setgid = (\<lambda>w g. (w, None)),
      k_Chdir = (\<lambda>w p. (w, Some (Errno 2))),
      k_LookPath = (\<lambda>w p. Inr p),
      k_Exec = (\<lambda>w b a e. None)\<rparr>"

definition example_flags :: Flags where
  "example_flags =
     \<lparr>Fail = False, Root = False, Hostname = ''box'', Chdir = ''/work'', Faketree = ''/ft'',
      Perms = 0x1ED, Proc = False, Wait = True, Propagate = True, TermOnWait = True,
      Timeout = 300, Uid = 1000, Gid = 1000,
      Mount = [\<lparr>Source = ''/a'', Target = ''/b'', Flags = DefaultMountFlags,
                Fstype = [], Data = []\<rparr>,
               \<lparr>Source = ''/a'', Target = ''/p'', Flags = DefaultMountFlags,
                Fstype = [], Data = []\<rparr>,
               \<lparr>Source = ''/missing'', Target = ''/c'', Flags = DefaultMountFlags,
                Fstype = [], Data = []\<rparr>]\<rparr>"

text \<open>
  An error in which \<open>exit\<close> finds neither an exit code nor \<open>pflag.ErrHelp\<close>, as the
  \<open>*PathError\<close> values of \<open>os.Chdir\<close> and \<open>os.MkdirAll\<close> are; \<open>None\<close> is nil.
\<close>

definition plain_error :: "error option \<Rightarrow> bool" where
  "plain_error err =
     (case err of
        None \<Rightarrow> True
      | Some e \<Rightarrow> errors_As_ExitError e = None \<and> errors_As_ExitStatus e = None
                  \<and> \<not> errors_Is_ErrHelp e)"

text \<open>The error that \<open>initializePrivileges\<close> reports when \<open>os.Chdir\<close> fails.\<close>

definition chdir_error :: "string \<Rightarrow> error \<Rightarrow> error option \<Rightarrow> error" where
  "chdir_error dir err merr =
     Errorf (''Could not chdir to %s - as specified with --chdir - error was: %w. ''
             @ ''Attempting to create the directory resulted in %w'')
       [ArgS dir, ArgW (Some err), ArgW merr]"

text \<open>
  What \<open>initializePrivileges\<close> does for the uid and for the gid when the error \<open>err\<close> of
  the call (\<open>None\<close> for nil) is not fatal: the call, and the message that is logged for an
  error.
\<close>

definition setuid_events :: "Flags \<Rightarrow> error option \<Rightarrow> event list" where
  "setuid_events flags err =
     SysSetuid (Uid flags)
     # (case err of
          None \<Rightarrow> []
        | Some e \<Rightarrow> [Logged ''Error changing to uid %d - %s\<newline>'' [ArgD (Uid flags), ArgV (Some e)]])"

definition setgid_events :: "Flags \<Rightarrow> error option \<Rightarrow> event list" where
  "setgid_events flags err =
     SysSetgid (Gid flags)
     # (case err of
          None \<Rightarrow> []
        | Some e \<Rightarrow> [Logged ''Error changing to gid %d - %s\<newline>'' [ArgD (Gid flags), ArgV (Some e)]])"


section \<open>The command line\<close>

subsection \<open>\<open>strconv\<close>\<close>

text \<open>
  \<open>strconv.Itoa\<close>, and \<open>fmt.Sprint\<close> of an unsigned integer: the decimal digits, most
  significant first.
\<close>

function decimal :: "int \<Rightarrow> string" where
  "decimal n = (if n < 10 then [''0123456789'' ! nat n]
                else decimal (n div 10) @ [''0123456789'' ! nat (n mod 10)])"
  by pat_completeness auto
termination
  by (relation "measure nat") auto

declare decimal.simps [simp del]

definition Itoa :: "int \<Rightarrow> string" where
  "Itoa i = (if i < 0 then CHR ''-'' # decimal (- i) else decimal i)"

text \<open>
  The errors of \<open>strconv\<close> are \<open>*NumError\<close> values; they are kept as their message.
\<close>

definition syntaxError :: "string \<Rightarrow> string \<Rightarrow> error" where
  "syntaxError fn str = Errorf ''strconv.%s: parsing %q: invalid syntax'' [ArgS fn, ArgS str]"

definition rangeError :: "string \<Rightarrow> string \<Rightarrow> error" where
  "rangeError fn str = Errorf ''strconv.%s: parsing %q: value out of range'' [ArgS fn, ArgS str]"

definition digit_of :: "char \<Rightarrow> int option" where
  "digit_of c = (if (48 :: int) \<le> of_char c \<and> (of_char c :: int) \<le> 57
                 then Some (of_char c - 48) else None)"

fun parse_digits :: "string \<Rightarrow> int \<Rightarrow> int option" where
  "parse_digits [] acc = Some acc"
| "parse_digits (c # cs) acc =
     (case digit_of c of None \<Rightarrow> None | Some d \<Rightarrow> parse_digits cs (acc * 10 + d))"

text \<open>
  \<open>strconv.Atoi\<close> where \<open>int\<close> has 64 bits: an optional sign, then at least one decimal
  digit and nothing else; the value has to fit (\<open>2 ^ 63 = 9223372036854775808\<close>).
\<close>

definition Atoi :: "string \<Rightarrow> error + int" where
  "Atoi s =
     (let neg = (s \<noteq> [] \<and> hd s = CHR ''-'');
          ds = (if s \<noteq> [] \<and> (hd s = CHR ''-'' \<or> hd s = CHR ''+'') then tl s else s)
      in if ds = [] then Inl (syntaxError ''Atoi'' s)
         else (case parse_digits ds 0 of
                 None \<Rightarrow> Inl (syntaxError ''Atoi'' s)
               | Some n \<Rightarrow>
                   if neg
                   then (if n \<le> 9223372036854775808 then Inr (- n)
                         else Inl (rangeError ''Atoi'' s))
                   else (if n < 9223372036854775808 then Inr n
                         else Inl (rangeError ''Atoi'' s))))"

text \<open>\<open>strconv.ParseBool\<close>.\<close>

definition ParseBool :: "string \<Rightarrow> error + bool" where
  "ParseBool str =
     (if str \<in> set [''1'', ''t'', ''T'', ''true'', ''TRUE'', ''True''] then Inr True
      else if str \<in> set [''0'', ''f'', ''F'', ''false'', ''FALSE'', ''False''] then Inr False
      else Inl (syntaxError ''ParseBool'' str))"

subsection \<open>The host\<close>

text \<open>
  What the flags read from the process and from the libraries: the ids of the caller,
  \<open>RealPath(reexec.Self())\<close> (empty when it fails), the user database
  (\<open>user.Lookup\<close> answers the \<open>Uid\<close> and \<open>Gid\<close> of the entry, \<open>user.LookupGroup\<close> the
  \<open>Gid\<close>), \<open>strconv.ParseUint(s, 0, 32)\<close>, \<open>time.ParseDuration\<close> and
  \<open>time.Duration.String\<close>. A duration is its number of nanoseconds.
\<close>

record host =
  h_Getuid :: int
  h_Getgid :: int
  h_Self :: string
  h_Lookup :: "string \<Rightarrow> error + string \<times> string"
  h_LookupGroup :: "string \<Rightarrow> error + string"
  h_ParseUint32 :: "string \<Rightarrow> error + 32 word"
  h_ParseDuration :: "string \<Rightarrow> error + int"
  h_DurationString :: "int \<Rightarrow> string"

definition kDefaultPerms :: "32 word" where "kDefaultPerms = 0x1ED"

definition kDefaultTimeout :: int where "kDefaultTimeout = 1000000000 * 300"

subsection \<open>\<open>Flags.Args\<close>\<close>

definition Args :: "host \<Rightarrow> Flags \<Rightarrow> string list" where
  "Args h opts =
     [''--uid'', Itoa (Uid opts), ''--gid'', Itoa (Gid opts)]
     @ (if Root opts then [''--root''] else [])
     @ (if Fail opts then [''--fail''] else [])
     @ (if Hostname opts \<noteq> [] then [''--hostname'', Hostname opts] else [])
     @ (if Chdir opts \<noteq> [] then [''--chdir'', Chdir opts] else [])
     @ (if Faketree opts \<noteq> [] then [''--faketree'', Faketree opts] else [])
     @ (if Perms opts \<noteq> kDefaultPerms then [''--perms'', decimal (uint (Perms opts))] else [])
     @ (if Proc opts then [''--proc''] else [])
     @ (if \<not> Wait opts then [''--wait=false''] else [])
     @ (if \<not> Propagate opts then [''--propagate=false''] else [])
     @ (if \<not> TermOnWait opts then [''--wait-term=false''] else [])
     @ (if Timeout opts \<noteq> kDefaultTimeout
        then [''--wait-timeout'', h_DurationString h (Timeout opts)] else [])
     @ concat (map (\<lambda>mount. [''--mount'', String mount]) (Mount opts))"

subsection \<open>\<open>ParseOrLookupUser\<close> and \<open>ParseOrLookupGroup\<close>\<close>

definition ParseOrLookupUser :: "host \<Rightarrow> string \<Rightarrow> error + int \<times> int" where
  "ParseOrLookupUser h uid =
     (case Atoi uid of
        Inr i \<Rightarrow>
          if i \<ge> 0 then Inr (i, 0)
          else Inl (Errorf ''invalid uid: %d - must be >= 0'' [ArgD i])
      | Inl aerr \<Rightarrow>
          (case h_Lookup h uid of
             Inl err \<Rightarrow>
               Inl (Errorf ''could not lookup user: %s - %w'' [ArgS uid, ArgW (Some err)])
           | Inr (u_Uid, u_Gid) \<Rightarrow>
               (case Atoi u_Uid of
                  Inl err \<Rightarrow>
                    Inl (Errorf ''lookup returned invalid uid: %s - %w''
                           [ArgS u_Uid, ArgW (Some err)])
                | Inr ud \<Rightarrow>
                    (case Atoi u_Gid of
                       Inl err \<Rightarrow>
                         Inl (Errorf ''lookup returned invalid uid: %s - %w''
                                [ArgS u_Gid, ArgW (Some err)])
                     | Inr gd \<Rightarrow> Inr (ud, gd)))))"

definition ParseOrLookupGroup :: "host \<Rightarrow> string \<Rightarrow> error + int" where
  "ParseOrLookupGroup h gid =
     (case Atoi gid of
        Inr i \<Rightarrow>
          if i \<ge> 0 then Inr i
          else Inl (Errorf ''invalid gid: %d - must be >= 0'' [ArgD i])
      | Inl aerr \<Rightarrow>
          (case h_LookupGroup h gid of
             Inl err \<Rightarrow>
               Inl (Errorf ''could not lookup group: %s - %w'' [ArgS gid, ArgW (Some err)])
           | Inr group_Gid \<Rightarrow>
               (case Atoi group_Gid of
                  Inl err \<Rightarrow>
                    Inl (Errorf ''lookup returned invalid gid: %s - %w''
                           [ArgS gid, ArgW (Some err)])
                | Inr gd \<Rightarrow> Inr gd)))"

subsection \<open>\<open>NewFlags\<close>\<close>

definition NewFlags :: "host \<Rightarrow> Flags" where
  "NewFlags h =
     \<lparr>Fail = False, Root = False, Hostname = [], Chdir = [], Faketree = h_Self h,
      Perms = kDefaultPerms, Proc = False, Wait = True, Propagate = True, TermOnWait = True,
      Timeout = kDefaultTimeout, Uid = h_Getuid h, Gid = h_Getgid h, Mount = []\<rparr>"

subsection \<open>The flag set of \<open>Flags.Parse\<close>\<close>

text \<open>
  The variables that the flag set of \<open>Flags.Parse\<close> writes: the fields of \<open>opts\<close>, the
  strings \<open>uid\<close> and \<open>gid\<close>, the strings \<open>mounts\<close>, and the arguments that are not flags.
\<close>

record flagset =
  fs_opts :: Flags
  fs_uid :: string
  fs_gid :: string
  fs_mounts :: "string list"
  fs_args :: "string list"

text \<open>The names that \<open>Flags.Parse\<close> defines; the \<open>Bool\<close> flags take \<open>true\<close> without a value.\<close>

definition formal :: "string list" where
  "formal = [''root'', ''fail'', ''proc'', ''wait'', ''wait-term'', ''propagate'',
             ''wait-timeout'', ''hostname'', ''chdir'', ''faketree'', ''perms'',
             ''uid'', ''gid'', ''mount'']"

definition NoOptDefVal :: "string \<Rightarrow> string" where
  "NoOptDefVal name =
     (if name \<in> set [''root'', ''fail'', ''proc'', ''wait'', ''wait-term'', ''propagate'']
      then ''true'' else [])"

definition invalid_argument :: "string \<Rightarrow> string \<Rightarrow> error \<Rightarrow> error" where
  "invalid_argument val name err =
     Errorf ''invalid argument %q for %q flag: %v'' [ArgS val, ArgS (''--'' @ name), ArgV (Some err)]"

text \<open>
  \<open>FlagSet.Set\<close>: the value of the flag parses the string and stores the result. A
  \<open>StringArray\<close> that starts empty collects the values in order.
\<close>

definition FlagSet_Set :: "host \<Rightarrow> string \<Rightarrow> string \<Rightarrow> flagset \<Rightarrow> error + flagset" where
  "FlagSet_Set h name val fs =
     (let opts = fs_opts fs;
          bool = (\<lambda>upd. case ParseBool val of
                           Inl err \<Rightarrow> Inl (invalid_argument val name err)
                         | Inr b \<Rightarrow> Inr (fs\<lparr>fs_opts := upd b\<rparr>))
      in if name = ''root'' then bool (\<lambda>b. opts\<lparr>Root := b\<rparr>)
         else if name = ''fail'' then bool (\<lambda>b. opts\<lparr>Fail := b\<rparr>)
         else if name = ''proc'' then bool (\<lambda>b. opts\<lparr>Proc := b\<rparr>)
         else if name = ''wait'' then bool (\<lambda>b. opts\<lparr>Wait := b\<rparr>)
         else if name = ''wait-term'' then bool (\<lambda>b. opts\<lparr>TermOnWait := b\<rparr>)
         else if name = ''propagate'' then bool (\<lambda>b. opts\<lparr>Propagate := b\<rparr>)
         else if name = ''wait-timeout''
           then (case h_ParseDuration h val of
                   Inl err \<Rightarrow> Inl (invalid_argument val name err)
                 | Inr d \<Rightarrow> Inr (fs\<lparr>fs_opts := opts\<lparr>Timeout := d\<rparr>\<rparr>))
         else if name = ''hostname'' then Inr (fs\<lparr>fs_opts := opts\<lparr>Hostname := val\<rparr>\<rparr>)
         else if name = ''chdir'' then Inr (fs\<lparr>fs_opts := opts\<lparr>Chdir := val\<rparr>\<rparr>)
         else if name = ''faketree'' then Inr (fs\<lparr>fs_opts := opts\<lparr>Faketree := val\<rparr>\<rparr>)
         else if name = ''perms''
           then (case h_ParseUint32 h val of
                   Inl err \<Rightarrow> Inl (invalid_argument val name err)
                 | Inr p \<Rightarrow> Inr (fs\<lparr>fs_opts := opts\<lparr>Perms := p\<rparr>\<rparr>))
         else if name = ''uid'' then Inr (fs\<lparr>fs_uid := val\<rparr>)
         else if name = ''gid'' then Inr (fs\<lparr>fs_gid := val\<rparr>)
         else if name = ''mount'' then Inr (fs\<lparr>fs_mounts := fs_mounts fs @ [val]\<rparr>)
         else Inl (Errorf ''no such flag -%v'' [ArgS name]))"

text \<open>
  \<open>FlagSet.parseLongArg\<close>: \<open>--name=value\<close>, \<open>--name\<close> of a flag with a value of its own,
  or \<open>--name value\<close>. The result is the arguments that are left.
\<close>

definition parseLongArg ::
  "host \<Rightarrow> string \<Rightarrow> string list \<Rightarrow> flagset \<Rightarrow> error + string list \<times> flagset" where
  "parseLongArg h s a fs =
     (let name0 = drop 2 s
      in if name0 = [] \<or> hd name0 = CHR ''-'' \<or> hd name0 = CHR ''=''
         then Inl (Errorf ''bad flag syntax: %s'' [ArgS s])
         else (let split = SplitN name0 CHR ''='' 2; name = hd split
               in if name \<notin> set formal
                  then (if name = ''help'' then Inl ErrHelp
                        else Inl (Errorf ''unknown flag: --%s'' [ArgS name]))
                  else if length split = 2
                  then (case FlagSet_Set h name (split ! 1) fs of
                          Inl err \<Rightarrow> Inl err | Inr fs' \<Rightarrow> Inr (a, fs'))
                  else if NoOptDefVal name \<noteq> []
                  then (case FlagSet_Set h name (NoOptDefVal name) fs of
                          Inl err \<Rightarrow> Inl err | Inr fs' \<Rightarrow> Inr (a, fs'))
                  else (case a of
                          v # a' \<Rightarrow>
                            (case FlagSet_Set h name v fs of
                               Inl err \<Rightarrow> Inl err | Inr fs' \<Rightarrow> Inr (a', fs'))
                        | [] \<Rightarrow> Inl (Errorf ''flag needs an argument: %s'' [ArgS s]))))"

text \<open>
  \<open>FlagSet.parseShortArg\<close>: the flag set has no shorthand, so the first letter ends the
  parse, \<open>h\<close> with \<open>ErrHelp\<close>.
\<close>

definition parseShortArg :: "string \<Rightarrow> error" where
  "parseShortArg s =
     (if hd (tl s) = CHR ''h'' then ErrHelp
      else Errorf ''unknown shorthand flag: %q in -%s'' [ArgS [hd (tl s)], ArgS (tl s)])"

text \<open>
  \<open>FlagSet.parseArgs\<close>, for a flag set that takes flags and other arguments in any order:
  \<open>--\<close> ends the flags.
\<close>

function parseArgs :: "host \<Rightarrow> string list \<Rightarrow> flagset \<Rightarrow> error + flagset" where
  "parseArgs h [] fs = Inr fs"
| "parseArgs h (s # args) fs =
     (if length s = 0 \<or> hd s \<noteq> CHR ''-'' \<or> length s = 1
      then parseArgs h args (fs\<lparr>fs_args := fs_args fs @ [s]\<rparr>)
      else if hd (tl s) = CHR ''-''
      then (if length s = 2 then Inr (fs\<lparr>fs_args := fs_args fs @ args\<rparr>)
            else (case parseLongArg h s args fs of
                    Inl err \<Rightarrow> Inl err
                  | Inr (args', fs') \<Rightarrow> parseArgs h args' fs'))
      else Inl (parseShortArg s))"
  by pat_completeness auto
termination
  by (relation "measure (\<lambda>(h, args, fs). length args)")
     (auto simp: parseLongArg_def Let_def split: if_splits sum.splits list.splits)

text \<open>\<open>FlagSet.Parse\<close> on the flag set that \<open>Flags.Parse\<close> builds from \<open>opts\<close>.\<close>

definition FlagSet_Parse :: "host \<Rightarrow> Flags \<Rightarrow> string list \<Rightarrow> error + flagset" where
  "FlagSet_Parse h opts argv =
     parseArgs h argv
       \<lparr>fs_opts = opts, fs_uid = Itoa (Uid opts), fs_gid = Itoa (Gid opts),
        fs_mounts = [], fs_args = []\<rparr>"

subsection \<open>\<open>Flags.Parse\<close>\<close>

text \<open>The loop over \<open>mounts\<close>: the first string that is no mount ends the parse.\<close>

fun parse_mounts :: "string list \<Rightarrow> Flags \<Rightarrow> error + Flags" where
  "parse_mounts [] opts = Inr opts"
| "parse_mounts (mount # mounts) opts =
     (case NewMountFlags mount of
        Inl err \<Rightarrow> Inl err
      | Inr m \<Rightarrow> parse_mounts mounts (opts\<lparr>Mount := Mount opts @ [m]\<rparr>))"

text \<open>The last step of \<open>Flags.Parse\<close>: the ids.\<close>

definition resolve_ids :: "host \<Rightarrow> string \<Rightarrow> string \<Rightarrow> Flags \<Rightarrow> error + Flags" where
  "resolve_ids h uid gid opts =
     (if \<not> Root opts
      then (case (if uid \<noteq> []
                  then (case ParseOrLookupUser h uid of
                          Inl err \<Rightarrow> Inl err
                        | Inr (u, g) \<Rightarrow> Inr (opts\<lparr>Uid := u, Gid := g\<rparr>))
                  else Inr opts) of
              Inl err \<Rightarrow> Inl err
            | Inr opts1 \<Rightarrow>
                if gid \<noteq> []
                then (case ParseOrLookupGroup h gid of
                        Inl err \<Rightarrow> Inl err
                      | Inr g \<Rightarrow> Inr (opts1\<lparr>Gid := g\<rparr>))
                else Inr opts1)
      else Inr (opts\<lparr>Uid := 0, Gid := 0\<rparr>))"

text \<open>\<open>Flags.Parse\<close>: the arguments that were not parsed and the flags, or an error.\<close>

definition Flags_Parse :: "host \<Rightarrow> Flags \<Rightarrow> string list \<Rightarrow> error + string list \<times> Flags" where
  "Flags_Parse h opts argv =
     (case FlagSet_Parse h opts argv of
        Inl err \<Rightarrow> Inl err
      | Inr fs \<Rightarrow>
          (case parse_mounts (fs_mounts fs) (fs_opts fs) of
             Inl err \<Rightarrow> Inl err
           | Inr opts1 \<Rightarrow>
               (case resolve_ids h (fs_uid fs) (fs_gid fs) opts1 of
                  Inl err \<Rightarrow> Inl err
                | Inr opts2 \<Rightarrow> Inr (fs_args fs, opts2))))"

text \<open>
  A host to run the flags on: the caller is uid and gid 1000, the user database has the
  user \<open>daemon\<close> (uid 104, gid 104) and the group \<open>staff\<close> (gid 50); numbers and durations
  are read in the simplest way (decimal digits, a number of nanoseconds).
\<close>

definition example_host :: host where
  "example_host =
     \<lparr>h_Getuid = 1000, h_Getgid = 1000, h_Self = ''/usr/bin/faketree'',
      h_Lookup = (\<lambda>name. if name = ''daemon'' then Inr (''104'', ''104'')
                          else Inl (Errorf ''user: unknown user %s'' [ArgS name])),
      h_LookupGroup = (\<lambda>name. if name = ''staff'' then Inr ''50''
                               else Inl (Errorf ''group: unknown group %s'' [ArgS name])),
      h_ParseUint32 = (\<lambda>s. case (if s = [] then None else parse_digits s 0) of
                              None \<Rightarrow> Inl (syntaxError ''ParseUint'' s)
                            | Some n \<Rightarrow> if n < 4294967296 then Inr (word_of_int n)
                                        else Inl (rangeError ''ParseUint'' s)),
      h_ParseDuration = (\<lambda>s. case Atoi s of
                                Inl err \<Rightarrow> Inl (Errorf ''time: invalid duration %q'' [ArgS s])
                              | Inr n \<Rightarrow> Inr n),
      h_DurationString = Itoa\<rparr>"

section \<open>Facts about the string functions\<close>

lemma TrimPrefix_shorter:
  "p \<noteq> [] \<Longrightarrow> (length (TrimPrefix s p) < length s) = HasPrefix s p"
proof (cases "HasPrefix s p")
  case True
  assume "p \<noteq> []"
  moreover from True have "length p \<le> length s"
    unfolding HasPrefix_def by (metis length_take min.cobounded1)
  ultimately show ?thesis using True by (cases p) (auto simp: TrimPrefix_def)
next
  case False
  then show ?thesis by (simp add: TrimPrefix_def)
qed

lemma TrimPrefix_type: "(length (TrimPrefix t ''type='') < length t) = is_type_token t"
  by (simp add: TrimPrefix_shorter is_type_token_def)

lemma TrimPrefix_data: "(length (TrimPrefix t ''data='') < length t) = is_data_token t"
  by (simp add: TrimPrefix_shorter is_data_token_def)

lemma TrimPrefix_type_drop: "is_type_token t \<Longrightarrow> TrimPrefix t ''type='' = drop 5 t"
  by (simp add: TrimPrefix_def is_type_token_def eval_nat_numeral)

lemma TrimPrefix_data_drop: "is_data_token t \<Longrightarrow> TrimPrefix t ''data='' = drop 5 t"
  by (simp add: TrimPrefix_def is_data_token_def eval_nat_numeral)

lemma type_not_data: "is_type_token t \<Longrightarrow> \<not> is_data_token t"
  by (auto simp: is_type_token_def is_data_token_def HasPrefix_def)

lemma Split_nonempty: "Split s c \<noteq> []"
  by (induction s) (auto split: list.splits)

lemma Join_Cons: "Join (x # xs) c = (if xs = [] then x else x @ c # Join xs c)"
  by (cases xs) auto

lemma Join_Split: "Join (Split s c) c = s"
proof (induction s)
  case Nil
  show ?case by simp
next
  case (Cons x xs)
  obtain f fs where sp: "Split xs c = f # fs"
    using Split_nonempty [of xs c] by (cases "Split xs c") auto
  with Cons show ?case by (auto simp: Join_Cons)
qed

section \<open>The parsing loop computes the described result\<close>

lemma Parse_loop_eq:
  "Parse_loop ix flds (fl, ty, da, er) =
     (fl OR flags_of_tokens (map TrimSpace (fields_before_data flds)),
      fstype_of_tokens ty (map TrimSpace (fields_before_data flds)),
      data_of_fields da flds,
      er @ map unknown_option (unknown_tokens ix (map TrimSpace (fields_before_data flds))))"
proof (induction flds arbitrary: ix fl ty da er)
  case Nil
  show ?case
    by (simp add: fields_before_data_def flags_of_tokens_def fstype_of_tokens_def
        data_of_fields_def unknown_tokens_def)
next
  case (Cons f flds)
  let ?t = "TrimSpace f"
  consider (type) "is_type_token ?t"
    | (data) "\<not> is_type_token ?t" "is_data_token ?t"
    | (known) opt where "\<not> is_type_token ?t" "\<not> is_data_token ?t"
        "Find KnownOptions ?t = Some opt"
    | (unknown) "\<not> is_type_token ?t" "\<not> is_data_token ?t" "Find KnownOptions ?t = None"
    by (cases "Find KnownOptions ?t") auto
  then show ?case
  proof cases
    case type
    then have nd: "\<not> is_data_token ?t" by (rule type_not_data)
    have ft: "fstype_of_tokens ty (?t # ts) = fstype_of_tokens (drop 5 ?t) ts" for ts
      using type by (simp add: fstype_of_tokens_def split: list.splits)
    have tp: "TrimPrefix ?t ''type='' = drop 5 ?t"
      using type by (rule TrimPrefix_type_drop)
    have "Parse_loop ix (f # flds) (fl, ty, da, er) =
            Parse_loop (Suc ix) flds (fl, drop 5 ?t, da, er)"
      unfolding Parse_loop.simps Let_def TrimPrefix_type using type tp by simp
    then show ?thesis
      using type nd
      by (simp add: Cons.IH fields_before_data_def ft
          flags_of_tokens_def data_of_fields_def unknown_tokens_def is_unknown_token_def)
  next
    case data
    have tp: "TrimPrefix ?t ''data='' = drop 5 ?t"
      using data(2) by (rule TrimPrefix_data_drop)
    have "Parse_loop ix (f # flds) (fl, ty, da, er) =
            (fl, ty, Join (drop 5 ?t # flds) CHR '','', er)"
      unfolding Parse_loop.simps Let_def TrimPrefix_type TrimPrefix_data
      using data tp by simp
    then show ?thesis
      using data
      by (simp add: fields_before_data_def flags_of_tokens_def fstype_of_tokens_def
          data_of_fields_def unknown_tokens_def)
  next
    case known
    have ft: "fstype_of_tokens ty (?t # ts) = fstype_of_tokens ty ts" for ts
      using known(1) by (simp add: fstype_of_tokens_def)
    have "Parse_loop ix (f # flds) (fl, ty, da, er) =
            Parse_loop (Suc ix) flds (fl OR Value opt, ty, da, er)"
      unfolding Parse_loop.simps Let_def TrimPrefix_type TrimPrefix_data
      using known by simp
    then show ?thesis
      using known
      by (simp add: Cons.IH fields_before_data_def ft
          flags_of_tokens_def data_of_fields_def unknown_tokens_def is_unknown_token_def
          or.assoc)
  next
    case unknown
    have ft: "fstype_of_tokens ty (?t # ts) = fstype_of_tokens ty ts" for ts
      using unknown(1) by (simp add: fstype_of_tokens_def)
    have "Parse_loop ix (f # flds) (fl, ty, da, er) =
            Parse_loop (Suc ix) flds
              (fl, ty, da, er @ [Errorf ''file system option #%d is unknown: %s''
                                   [ArgD (int ix), ArgS ?t]])"
      unfolding Parse_loop.simps Let_def TrimPrefix_type TrimPrefix_data
      using unknown by simp
    then show ?thesis
      using unknown
      by (simp add: Cons.IH fields_before_data_def ft unknown_option_def
          flags_of_tokens_def data_of_fields_def unknown_tokens_def is_unknown_token_def)
  qed
qed

section \<open>Claims about mount options\<close>

lemma Parse_eq:
  "Parse mo options =
     (flags_of_tokens (map TrimSpace (fields_before_data (Split options CHR '',''))),
      fstype_of_tokens [] (map TrimSpace (fields_before_data (Split options CHR '',''))),
      data_of_fields [] (Split options CHR '',''),
      multierror_New
        (map unknown_option
          (unknown_tokens 0 (map TrimSpace (fields_before_data (Split options CHR '',''))))))"
  by (simp add: Parse_def Parse_loop_eq)

lemma flags_of_tokens_reflects:
  assumes "t \<in> set ts" and "\<not> is_type_token t" and "Find KnownOptions t = Some opt"
  shows "flags_of_tokens ts AND Value opt = Value opt"
proof -
  have mem: "opt \<in> set (List.map_filter (Find KnownOptions)
                          (filter (\<lambda>t. \<not> is_type_token t) ts))"
    using assms by (auto simp: map_filter_def intro!: image_eqI [where x = t])
  have "v \<in> set vs \<Longrightarrow> foldr (\<lambda>opt acc. Value opt OR acc) vs 0 AND Value v = Value v"
    for v :: MountOption and vs
  proof (induction vs)
    case Nil
    then show ?case by simp
  next
    case (Cons a vs)
    show ?case
    proof (cases "v = a")
      case True
      then show ?thesis by (simp add: bit_eq_iff bit_and_iff bit_or_iff)
    next
      case False
      with Cons have ih: "foldr (\<lambda>opt acc. Value opt OR acc) vs 0 AND Value v = Value v"
        by simp
      have "bit (foldr (\<lambda>opt acc. Value opt OR acc) vs 0) n" if "bit (Value v) n" for n
        using that arg_cong [OF ih, of "\<lambda>w. bit w n"] by (simp add: bit_and_iff)
      then show ?thesis by (auto simp: bit_eq_iff bit_and_iff bit_or_iff)
    qed
  qed
  with mem show ?thesis by (simp add: flags_of_tokens_def)
qed

lemma takeWhile_eq_take_first:
  assumes "i < length xs" and "\<not> P (xs ! i)" and "\<forall>j<i. P (xs ! j)"
  shows "takeWhile P xs = take i xs" and "dropWhile P xs = drop i xs"
proof -
  have "length (takeWhile P xs) = i"
  proof (rule ccontr)
    assume ne: "length (takeWhile P xs) \<noteq> i"
    show False
    proof (cases "length (takeWhile P xs) < i")
      case True
      then have "P (xs ! length (takeWhile P xs))" using assms(3) by blast
      moreover have "length (takeWhile P xs) < length xs" using True assms(1) by simp
      ultimately show False using nth_length_takeWhile by blast
    next
      case False
      with ne have "i < length (takeWhile P xs)" by simp
      then have "P (takeWhile P xs ! i)"
        using nth_mem set_takeWhileD by metis
      moreover have "takeWhile P xs ! i = xs ! i"
        using \<open>i < length (takeWhile P xs)\<close> by (rule takeWhile_nth)
      ultimately show False using assms(2) by simp
    qed
  qed
  then show "takeWhile P xs = take i xs"
    by (metis takeWhile_eq_take)
  then show "dropWhile P xs = drop i xs"
    by (metis append_eq_conv_conj takeWhile_dropWhile_id length_take
        \<open>length (takeWhile P xs) = i\<close>)
qed

text \<open>
  C7: a mount whose flags are the default \<open>MS_BIND|MS_REC|MS_PRIVATE\<close> and whose
  file-system type and data are empty prints as \<open>source:target\<close>, with no flag token and
  no trailing colon; and whenever the flags are the default, the mount prints with the
  \<open>type=\<close> and \<open>data=\<close> tokens only, no flag name: \<open>source:target:type=T\<close>,
  \<open>source:target:data=D\<close> or \<open>source:target:type=T,data=D\<close>. The options that
  \<open>MountOptions.Serialize\<close> returns for the default flags are these tokens.
\<close>

theorem default_flags_elided:
  "String \<lparr>Source = source, Target = target, Flags = DefaultMountFlags,
           Fstype = [], Data = []\<rparr> = source @ '':'' @ target
   \<and> String \<lparr>Source = source, Target = target, Flags = DefaultMountFlags,
             Fstype = t # ts, Data = []\<rparr> = source @ '':'' @ target @ '':type='' @ t # ts
   \<and> String \<lparr>Source = source, Target = target, Flags = DefaultMountFlags,
             Fstype = [], Data = d # ds\<rparr> = source @ '':'' @ target @ '':data='' @ d # ds
   \<and> String \<lparr>Source = source, Target = target, Flags = DefaultMountFlags,
             Fstype = t # ts, Data = d # ds\<rparr>
       = source @ '':'' @ target @ '':type='' @ t # ts @ '',data='' @ d # ds
   \<and> String \<lparr>Source = source, Target = target, Flags = DefaultMountFlags,
             Fstype = fstype, Data = fsdata\<rparr>
       = source @ '':'' @ target
         @ (if fstype = [] \<and> fsdata = [] then []
            else '':'' @ Join ((if fstype \<noteq> [] then [''type='' @ fstype] else [])
                              @ (if fsdata \<noteq> [] then [''data='' @ fsdata] else [])) CHR '','')
   \<and> Serialize KnownOptions DefaultMountFlags [] [] = []
   \<and> Serialize KnownOptions DefaultMountFlags (t # ts) [] = ''type='' @ t # ts
   \<and> Serialize KnownOptions DefaultMountFlags [] (d # ds) = ''data='' @ d # ds
   \<and> Serialize KnownOptions DefaultMountFlags (t # ts) (d # ds)
       = ''type='' @ t # ts @ '','' @ ''data='' @ d # ds"
  by (simp add: String_def Serialize_def)

text \<open>
  C8: an unknown flag token in front of the first \<open>data=\<close> token makes
  \<open>MountOptions.Parse\<close> return an error that names the token and its position, and the
  other tokens are processed all the same: every known flag among them is set in the
  returned flags, the file-system type is that of the last \<open>type=\<close> token, and the data
  is that of the \<open>data=\<close> token.
\<close>

theorem unknown_token_reported:
  assumes "ix < length (fields_before_data (Split options CHR '',''))"
    and "is_unknown_token (TrimSpace (fields_before_data (Split options CHR '','') ! ix))"
  shows "case Parse KnownOptions options of
           (fsflags, fstype, fsdata, err) \<Rightarrow>
             (\<exists>errs. err = Some (MultiError errs)
                \<and> Errorf ''file system option #%d is unknown: %s''
                      [ArgD (int ix),
                       ArgS (TrimSpace (fields_before_data (Split options CHR '','') ! ix))]
                    \<in> set errs)
             \<and> fsflags = flags_of_tokens (map TrimSpace (fields_before_data (Split options CHR '','')))
             \<and> (\<forall>f \<in> set (fields_before_data (Split options CHR '','')). \<forall>opt.
                   \<not> is_type_token (TrimSpace f) \<and> Find KnownOptions (TrimSpace f) = Some opt
                   \<longrightarrow> fsflags AND Value opt = Value opt)
             \<and> fstype = fstype_of_tokens [] (map TrimSpace (fields_before_data (Split options CHR '','')))
             \<and> fsdata = data_of_fields [] (Split options CHR '','')"
proof -
  let ?pre = "fields_before_data (Split options CHR '','')"
  let ?toks = "map TrimSpace ?pre"
  have "(ix, ?toks ! ix) \<in> set (enumerate 0 ?toks)"
    using assms(1) by (simp add: in_set_enumerate_eq)
  then have mem: "(ix, TrimSpace (?pre ! ix)) \<in> set (unknown_tokens 0 ?toks)"
    using assms by (simp add: unknown_tokens_def)
  then have ne: "unknown_tokens 0 ?toks \<noteq> []" by auto
  have mem': "Errorf ''file system option #%d is unknown: %s''
                [ArgD (int ix), ArgS (TrimSpace (?pre ! ix))]
              \<in> set (map unknown_option (unknown_tokens 0 ?toks))"
    using mem by (force simp: unknown_option_def)
  have refl: "flags_of_tokens ?toks AND Value opt = Value opt"
    if "f \<in> set ?pre" "\<not> is_type_token (TrimSpace f)"
       "Find KnownOptions (TrimSpace f) = Some opt" for f opt
    using that by (intro flags_of_tokens_reflects [where t = "TrimSpace f"]) auto
  show ?thesis
    using mem' ne refl by (simp add: Parse_eq multierror_New_def)
qed

theorem unknown_token_reported_witness:
  "case Parse KnownOptions ''ro,foo,type=ext4,nodev,data=a,b'' of
     (fsflags, fstype, fsdata, err) \<Rightarrow>
       (\<exists>errs. err = Some (MultiError errs)
          \<and> Errorf ''file system option #%d is unknown: %s'' [ArgD 1, ArgS ''foo'']
              \<in> set errs)
       \<and> fsflags = MS_RDONLY OR MS_NODEV \<and> fstype = ''ext4'' \<and> fsdata = ''a,b''"
proof -
  have pre: "fields_before_data (Split ''ro,foo,type=ext4,nodev,data=a,b'' CHR '','')
               = [''ro'', ''foo'', ''type=ext4'', ''nodev'']"
    by code_simp
  have unk: "is_unknown_token (TrimSpace ''foo'')"
    by code_simp
  have fl: "flags_of_tokens (map TrimSpace [''ro'', ''foo'', ''type=ext4'', ''nodev''])
              = MS_RDONLY OR MS_NODEV"
    by code_simp
  have ty: "fstype_of_tokens [] (map TrimSpace [''ro'', ''foo'', ''type=ext4'', ''nodev''])
              = ''ext4''"
    by code_simp
  have da: "data_of_fields [] (Split ''ro,foo,type=ext4,nodev,data=a,b'' CHR '','') = ''a,b''"
    by code_simp
  have tr: "TrimSpace ''foo'' = ''foo''"
    by code_simp
  show ?thesis
    using unknown_token_reported [of 1 "''ro,foo,type=ext4,nodev,data=a,b''"] unk
    unfolding pre fl ty da
    by (simp add: tr split: prod.splits)
qed

text \<open>
  C6, as the code has it: the data is the first \<open>data=\<close> token (its field with the
  surrounding white space trimmed) without the prefix \<open>data=\<close>, followed by all later
  fields as they are, commas included; and the flags, the file-system type and the errors
  are those of the fields in front of it alone, so no later token is read as a flag, a
  \<open>type=\<close> or a \<open>data=\<close> token.
\<close>

theorem data_is_greedy:
  assumes "i < length (Split options CHR '','')"
    and "is_data_token (TrimSpace (Split options CHR '','' ! i))"
    and "\<forall>j<i. \<not> is_data_token (TrimSpace (Split options CHR '','' ! j))"
  shows "case Parse KnownOptions options of
           (fsflags, fstype, fsdata, err) \<Rightarrow>
             fsdata = Join (drop 5 (TrimSpace (Split options CHR '','' ! i))
                            # drop (Suc i) (Split options CHR '','')) CHR '',''
             \<and> fsflags = flags_of_tokens (map TrimSpace (take i (Split options CHR '','')))
             \<and> fstype = fstype_of_tokens [] (map TrimSpace (take i (Split options CHR '','')))
             \<and> err = multierror_New
                        (map unknown_option
                          (unknown_tokens 0 (map TrimSpace (take i (Split options CHR '','')))))"
proof -
  let ?flds = "Split options CHR '',''"
  let ?P = "\<lambda>f. \<not> is_data_token (TrimSpace f)"
  have a: "\<not> ?P (?flds ! i)" using assms(2) by simp
  have b: "\<forall>j<i. ?P (?flds ! j)" using assms(3) by simp
  have tw: "takeWhile ?P ?flds = take i ?flds"
    using assms(1) a b by (rule takeWhile_eq_take_first(1))
  have dw: "dropWhile ?P ?flds = drop i ?flds"
    using assms(1) a b by (rule takeWhile_eq_take_first(2))
  have dr: "drop i ?flds = ?flds ! i # drop (Suc i) ?flds"
    using assms(1) by (simp add: Cons_nth_drop_Suc)
  show ?thesis
    by (simp add: Parse_eq fields_before_data_def tw data_of_fields_def dw dr)
qed

theorem data_is_greedy_witness:
  "case Parse KnownOptions ''ro,data=x ,bind,type=y'' of
     (fsflags, fstype, fsdata, err) \<Rightarrow>
       fsdata = ''x,bind,type=y'' \<and> fsflags = MS_RDONLY \<and> fstype = [] \<and> err = None"
proof -
  have sp: "Split ''ro,data=x ,bind,type=y'' CHR '','' = [''ro'', ''data=x '', ''bind'', ''type=y'']"
    by code_simp
  have h2: "is_data_token (TrimSpace ([''ro'', ''data=x '', ''bind'', ''type=y''] ! 1))"
    by code_simp
  have h3: "\<forall>j<1. \<not> is_data_token (TrimSpace ([''ro'', ''data=x '', ''bind'', ''type=y''] ! j))"
  proof -
    have "\<not> is_data_token (TrimSpace ''ro'')" by code_simp
    then show ?thesis by simp
  qed
  have d: "Join (drop 5 (TrimSpace ([''ro'', ''data=x '', ''bind'', ''type=y''] ! 1))
             # drop (Suc 1) [''ro'', ''data=x '', ''bind'', ''type=y'']) CHR '','' = ''x,bind,type=y''"
    by code_simp
  have fl: "flags_of_tokens (map TrimSpace (take 1 [''ro'', ''data=x '', ''bind'', ''type=y'']))
              = MS_RDONLY"
    by code_simp
  have ty: "fstype_of_tokens [] (map TrimSpace (take 1 [''ro'', ''data=x '', ''bind'', ''type=y'']))
              = []"
    by code_simp
  have er: "multierror_New (map unknown_option (unknown_tokens 0
              (map TrimSpace (take 1 [''ro'', ''data=x '', ''bind'', ''type=y''])))) = None"
    by code_simp
  show ?thesis
    using data_is_greedy [of 1 "''ro,data=x ,bind,type=y''"] h2 h3
    unfolding sp d fl ty er
    by (simp split: prod.splits)
qed

text \<open>
  The claim C6 as it is written fails: in \<open>data=x ,y\<close> the remainder of the options
  string after \<open>data=\<close> is \<open>x ,y\<close>, but the white space that ends the token's own field
  is trimmed and the parsed data is \<open>x,y\<close>.
\<close>

theorem data_remainder_counterexample:
  "fst (snd (snd (Parse KnownOptions (''data='' @ ''x ,y'')))) \<noteq> ''x ,y''"
  by code_simp

text \<open>
  C2 at a failing input: the three default flags written out together with a file-system
  type are accepted; the mount prints without the flags; and the printed string parses to
  a mount with no flags at all.
\<close>

theorem mount_roundtrip_fails:
  "NewMountFlags ''a:b:bind,recursive,private,type=ext4''
     = Inr \<lparr>Source = ''a'', Target = ''b'', Flags = MS_BIND OR MS_REC OR MS_PRIVATE,
           Fstype = ''ext4'', Data = []\<rparr>
   \<and> String \<lparr>Source = ''a'', Target = ''b'', Flags = MS_BIND OR MS_REC OR MS_PRIVATE,
             Fstype = ''ext4'', Data = []\<rparr> = ''a:b:type=ext4''
   \<and> NewMountFlags ''a:b:type=ext4''
     = Inr \<lparr>Source = ''a'', Target = ''b'', Flags = 0, Fstype = ''ext4'', Data = []\<rparr>
   \<and> MS_BIND OR MS_REC OR MS_PRIVATE \<noteq> (0 :: uintptr)"
  by code_simp

section \<open>Facts about wait statuses\<close>

lemma and_7F: "(w :: 32 word) AND 0x7F = take_bit 7 w"
proof -
  have "(mask 7 :: 32 word) = 0x7F" by (simp add: mask_eq_exp_minus_1)
  then show ?thesis by (simp add: take_bit_eq_mask)
qed

lemma and_FF: "(w :: 32 word) AND 0xFF = take_bit 8 w"
proof -
  have "(mask 8 :: 32 word) = 0xFF" by (simp add: mask_eq_exp_minus_1)
  then show ?thesis by (simp add: take_bit_eq_mask)
qed

lemma and_80: "((w :: 32 word) AND 0x80 \<noteq> 0) = bit w 7"
proof -
  have "(2 ^ 7 :: 32 word) = 0x80" by simp
  then show ?thesis using and_exp_eq_0_iff_not_bit [of w 7] by simp
qed

lemma Exited_not_Stopped: "Exited s \<Longrightarrow> \<not> Stopped s \<and> \<not> Continued s"
proof -
  assume e: "Exited s"
  have "take_bit 7 (take_bit 8 s) = take_bit 7 s" by simp
  moreover have "take_bit 7 (0x7F :: 32 word) \<noteq> 0" by simp
  moreover have "take_bit 7 s = 0" using e by (simp add: Exited_def and_7F)
  ultimately have "take_bit 8 s \<noteq> 0x7F" by metis
  moreover have "s \<noteq> 0xFFFF" using e by (auto simp: Exited_def)
  ultimately show ?thesis by (simp add: Stopped_def Continued_def and_FF)
qed

lemma Signaled_not_Stopped: "Signaled s \<Longrightarrow> \<not> Stopped s \<and> \<not> Continued s \<and> \<not> Exited s"
proof -
  assume e: "Signaled s"
  have "take_bit 7 (take_bit 8 s) = take_bit 7 s" by simp
  moreover have "take_bit 7 (0x7F :: 32 word) = 0x7F" by simp
  ultimately have "take_bit 8 s \<noteq> 0x7F" using e unfolding Signaled_def and_7F by metis
  moreover have "s \<noteq> 0xFFFF" using e by (auto simp: Signaled_def)
  ultimately show ?thesis using e by (simp add: Stopped_def Continued_def and_FF Signaled_def Exited_def)
qed

lemma ExitStatus_range:
  "Exited s \<Longrightarrow> 0 \<le> WaitStatus_ExitStatus s \<and> WaitStatus_ExitStatus s < 256"
proof -
  assume "Exited s"
  have "drop_bit 8 s AND 0xFF \<le> 0xFF" by (rule word_and_le1)
  then have "uint (drop_bit 8 s AND 0xFF) \<le> 255" by (simp add: word_le_def)
  with \<open>Exited s\<close> show ?thesis by (simp add: WaitStatus_ExitStatus_def)
qed

lemma raw_low_byte:
  "uint (s :: 32 word) mod 256 = uint (s AND 0x7F) + (if s AND 0x80 \<noteq> 0 then 128 else 0)"
proof -
  have "uint s mod 256 = take_bit (Suc 7) (uint s)" by (simp add: take_bit_eq_mod)
  also have "\<dots> = 2 ^ 7 * of_bool (bit (uint s) 7) + take_bit 7 (uint s)"
    by (rule take_bit_Suc_from_most)
  also have "take_bit 7 (uint s) = uint (s AND 0x7F)"
    by (simp add: and_7F unsigned_take_bit_eq)
  also have "bit (uint s) 7 = (s AND 0x80 \<noteq> 0)"
    by (simp add: and_80 bit_uint_iff)
  finally show ?thesis by simp
qed

section \<open>The wait loop\<close>

lemma inner_quiet:
  "pid \<noteq> process \<or> Stopped status \<or> Continued status \<Longrightarrow>
   WaitChildren_inner timeout process termOnWait pid status ks st =
   WaitChildren_outer timeout process termOnWait ks st"
proof -
  assume q: "pid \<noteq> process \<or> Stopped status \<or> Continued status"
  obtain perr acts where st: "st = (perr, acts)" by (cases st)
  show ?thesis
  proof (cases ks)
    case Nil
    then show ?thesis using q st by auto
  next
    case (Cons k ks')
    then show ?thesis using q st by (cases k) auto
  qed
qed

lemma inner_child:
  assumes "process \<noteq> 0" and "\<not> Stopped status" and "\<not> Continued status"
  shows "WaitChildren_inner timeout process termOnWait process status ks (perr, acts) =
         WaitChildren_outer timeout process termOnWait ks
           ((if Exited status then ExitStatus (WaitStatus_ExitStatus status)
             else ExitStatus (uint status)),
            acts @ (if termOnWait then [Kill (-1) SIGTERM] else [])
                 @ (if timeout \<noteq> 0 then [KillAfter timeout (-1) SIGKILL] else []))"
proof (cases ks)
  case Nil
  then show ?thesis using assms by simp
next
  case (Cons k ks')
  then show ?thesis using assms by (cases k) simp_all
qed

text \<open>Every report leads back to the head of the outer loop, in some state.\<close>

lemma inner_any:
  assumes "process \<noteq> 0"
  shows "\<exists>st'. \<forall>ks. WaitChildren_inner timeout process termOnWait pid status ks st =
                     WaitChildren_outer timeout process termOnWait ks st'"
proof (cases "pid \<noteq> process \<or> Stopped status \<or> Continued status")
  case True
  then show ?thesis
    using inner_quiet [of pid process status timeout termOnWait _ st] by blast
next
  case False
  obtain perr acts where st: "st = (perr, acts)" by (cases st)
  from False have p: "pid = process" and ns: "\<not> Stopped status" "\<not> Continued status"
    by simp_all
  show ?thesis
    unfolding st p using inner_child [OF assms ns, of timeout termOnWait _ perr acts] by blast
qed

lemma outer_quiet:
  "no_exit_of process pre \<Longrightarrow>
   WaitChildren_outer timeout process termOnWait (pre @ ks) st =
   WaitChildren_outer timeout process termOnWait ks st"
proof (induction pre)
  case Nil
  show ?case by simp
next
  case (Cons k pre)
  obtain perr acts where st: "st = (perr, acts)" by (cases st)
  from Cons.prems obtain pid status where k: "k = Wait4 pid status"
    and q: "pid \<noteq> process \<or> Stopped status \<or> Continued status"
    and rest: "no_exit_of process pre"
    by (cases k) (auto simp: no_exit_of_def)
  have "WaitChildren_outer timeout process termOnWait ((k # pre) @ ks) st =
        WaitChildren_inner timeout process termOnWait pid status (pre @ ks) st"
    by (simp add: k st)
  also have "\<dots> = WaitChildren_outer timeout process termOnWait (pre @ ks) st"
    using q by (rule inner_quiet)
  also have "\<dots> = WaitChildren_outer timeout process termOnWait ks st"
    using rest by (rule Cons.IH)
  finally show ?case .
qed

lemma outer_reports:
  assumes "process \<noteq> 0"
  shows "reports_only pre \<Longrightarrow>
         \<exists>st'. \<forall>ks. WaitChildren_outer timeout process termOnWait (pre @ ks) st =
                     WaitChildren_outer timeout process termOnWait ks st'"
proof (induction pre arbitrary: st)
  case Nil
  show ?case by (intro exI [of _ st]) simp
next
  case (Cons k pre)
  obtain perr acts where st: "st = (perr, acts)" by (cases st)
  from Cons.prems obtain pid status where k: "k = Wait4 pid status" and rest: "reports_only pre"
    by (cases k) (auto simp: reports_only_def)
  obtain st1 where s1: "\<forall>ks. WaitChildren_inner timeout process termOnWait pid status ks st =
                             WaitChildren_outer timeout process termOnWait ks st1"
    using inner_any [OF assms, of timeout termOnWait pid status st] by blast
  obtain st2 where s2: "\<forall>ks. WaitChildren_outer timeout process termOnWait (pre @ ks) st1 =
                             WaitChildren_outer timeout process termOnWait ks st2"
    using Cons.IH [OF rest, of st1] by blast
  have "\<forall>ks. WaitChildren_outer timeout process termOnWait ((k # pre) @ ks) st =
             WaitChildren_outer timeout process termOnWait ks st2"
    using s1 s2 by (simp add: k st)
  then show ?case by blast
qed

text \<open>As long as \<open>Wait4\<close> reports processes and does not fail, \<open>WaitChildren\<close> goes on.\<close>

lemma WaitChildren_never:
  assumes "process \<noteq> 0" and "reports_only ks"
  shows "WaitChildren timeout process termOnWait ks = None"
proof -
  obtain st' where "WaitChildren_outer timeout process termOnWait (ks @ []) (Errno ECHILD, []) =
                    WaitChildren_outer timeout process termOnWait [] st'"
    using outer_reports [OF assms, of timeout termOnWait "(Errno ECHILD, [])"] by blast
  moreover obtain perr acts where "st' = (perr, acts)" by (cases st')
  ultimately show ?thesis
    by (simp add: WaitChildren_def)
qed

text \<open>An error of \<open>Wait4\<close> other than \<open>ECHILD\<close> is what \<open>WaitChildren\<close> returns.\<close>

lemma WaitChildren_error:
  assumes "process \<noteq> 0" and "reports_only pre" and "\<not> errors_Is_Errno err ECHILD"
  shows "\<exists>acts. WaitChildren timeout process termOnWait (pre @ Wait4Err err # rest) = Some (err, acts)"
proof -
  obtain st' where s: "WaitChildren_outer timeout process termOnWait (pre @ Wait4Err err # rest)
                         (Errno ECHILD, []) =
                       WaitChildren_outer timeout process termOnWait (Wait4Err err # rest) st'"
    using outer_reports [OF assms(1,2), of timeout termOnWait "(Errno ECHILD, [])"] by blast
  obtain perr acts where "st' = (perr, acts)" by (cases st')
  then show ?thesis
    using s assms(3) by (simp add: WaitChildren_def childerr_def)
qed

text \<open>
  When \<open>Wait4\<close> fails with \<open>ECHILD\<close>, \<open>WaitChildren\<close> returns what it remembered at the last
  report of the end of \<open>process\<close>.
\<close>

lemma WaitChildren_result:
  assumes "process \<noteq> 0" and "\<not> Stopped status" and "\<not> Continued status"
    and "reports_only pre" and "no_exit_of process post" and "errors_Is_Errno err ECHILD"
  shows "\<exists>acts. WaitChildren timeout process termOnWait
                  (pre @ Wait4 process status # post @ Wait4Err err # rest) =
                Some ((if Exited status then ExitStatus (WaitStatus_ExitStatus status)
                       else ExitStatus (uint status)), acts)"
proof -
  obtain st' where s: "WaitChildren_outer timeout process termOnWait
                         (pre @ Wait4 process status # post @ Wait4Err err # rest) (Errno ECHILD, []) =
                       WaitChildren_outer timeout process termOnWait
                         (Wait4 process status # post @ Wait4Err err # rest) st'"
    using outer_reports [OF assms(1,4), of timeout termOnWait "(Errno ECHILD, [])"] by blast
  obtain perr acts where st': "st' = (perr, acts)" by (cases st')
  let ?st = "((if Exited status then ExitStatus (WaitStatus_ExitStatus status)
               else ExitStatus (uint status)),
              acts @ (if termOnWait then [Kill (-1) SIGTERM] else [])
                   @ (if timeout \<noteq> 0 then [KillAfter timeout (-1) SIGKILL] else []))"
  have "WaitChildren timeout process termOnWait
          (pre @ Wait4 process status # post @ Wait4Err err # rest) =
        WaitChildren_inner timeout process termOnWait process status
          (post @ Wait4Err err # rest) (perr, acts)"
    unfolding WaitChildren_def s st' by simp
  also have "\<dots> = WaitChildren_outer timeout process termOnWait (post @ Wait4Err err # rest) ?st"
    using assms(1-3) by (rule inner_child)
  also have "\<dots> = WaitChildren_outer timeout process termOnWait (Wait4Err err # rest) ?st"
    using assms(5) by (rule outer_quiet)
  also have "\<dots> = Some ?st"
    using assms(6) by (simp add: childerr_def)
  finally show ?thesis by blast
qed

section \<open>Claims about the supervisor\<close>

text \<open>
  C1, as the code has it, for a supervisor whose direct child is \<open>child\<close>. A supervisor
  that waits for all children (\<open>wait=true\<close>) exits when a call of \<open>Wait4\<close> fails. When the
  call fails with \<open>ECHILD\<close>, its exit status is read from the last report of the end of
  the direct child, however many other reports come before and after that one: the exit
  code \<open>K\<close> of a child that exited normally, and for a child killed by signal \<open>N\<close> the low
  byte of the raw wait status, which is \<open>N\<close>, or \<open>128 + N\<close> when the core-dump flag is
  set. When the call fails with another errno the supervisor exits with 125, and as long
  as \<open>Wait4\<close> reports processes without failing it does not exit. A supervisor that waits
  for the direct child only (\<open>wait=false\<close>) exits with \<open>K\<close> for a child that exited
  normally, and with 255 for a child killed by a signal.
\<close>

theorem supervisor_exit_status:
  assumes "start w = Inr child" and "child \<noteq> 0"
  shows "(wait4_answers w = pre @ Wait4 child status # post @ Wait4Err err # rest
            \<and> reports_only pre \<and> no_exit_of child post \<and> errors_Is_Errno err ECHILD
            \<and> (Exited status \<or> Signaled status) \<longrightarrow>
            launcher_status (RunAndWait True propagate tow timeout w pid) =
              Some (if Exited status then WaitStatus_ExitStatus status
                    else Signal status + (if CoreDump status then 128 else 0)))
         \<and> (wait4_answers w = pre @ Wait4Err (Errno e) # rest
              \<and> reports_only pre \<and> e \<noteq> ECHILD \<longrightarrow>
              launcher_status (RunAndWait True propagate tow timeout w pid) = Some 125)
         \<and> (reports_only (wait4_answers w) \<longrightarrow>
              exit_code (RunAndWait True propagate tow timeout w pid) = None)
         \<and> (child_status w = status \<and> (Exited status \<or> Signaled status) \<longrightarrow>
              launcher_status (RunAndWait False propagate tow timeout w pid) =
                Some (if Exited status then WaitStatus_ExitStatus status else 255))"
proof -
  have a: "launcher_status (RunAndWait True propagate tow timeout w pid) =
              Some (if Exited status then WaitStatus_ExitStatus status
                    else Signal status + (if CoreDump status then 128 else 0))"
    if ans: "wait4_answers w = pre @ Wait4 child status # post @ Wait4Err err # rest"
      and r: "reports_only pre" and q: "no_exit_of child post"
      and ec: "errors_Is_Errno err ECHILD" and es: "Exited status \<or> Signaled status"
  proof -
    have ns: "\<not> Stopped status" "\<not> Continued status"
      using es Exited_not_Stopped Signaled_not_Stopped by blast+
    obtain acts where wc: "WaitChildren timeout child tow (wait4_answers w) =
              Some ((if Exited status then ExitStatus (WaitStatus_ExitStatus status)
                     else ExitStatus (uint status)), acts)"
      unfolding ans using WaitChildren_result [OF assms(2) ns r q ec] by blast
    show ?thesis
    proof (cases "Exited status")
      case True
      then have "WaitStatus_ExitStatus status mod 256 = WaitStatus_ExitStatus status"
        using ExitStatus_range [of status] by simp
      then show ?thesis
        using True wc assms(1)
        by (simp add: launcher_status_def RunAndWait_def exit_def exit_status_def)
    next
      case False
      with es have sg: "Signaled status" by simp
      have "uint status mod 256 = Signal status + (if CoreDump status then 128 else 0)"
        using sg by (simp add: raw_low_byte Signal_def CoreDump_def)
      then show ?thesis
        using False wc assms(1)
        by (simp add: launcher_status_def RunAndWait_def exit_def exit_status_def)
    qed
  qed
  have b: "launcher_status (RunAndWait True propagate tow timeout w pid) = Some 125"
    if ans: "wait4_answers w = pre @ Wait4Err (Errno e) # rest"
      and r: "reports_only pre" and ne: "e \<noteq> ECHILD"
  proof -
    have "\<not> errors_Is_Errno (Errno e) ECHILD"
      using ne by simp
    then obtain acts where "WaitChildren timeout child tow (wait4_answers w) = Some (Errno e, acts)"
      unfolding ans using WaitChildren_error [OF assms(2) r] by blast
    then show ?thesis
      using assms(1)
      by (simp add: launcher_status_def RunAndWait_def exit_def exit_status_def kDefaultExit_def)
  qed
  have c: "exit_code (RunAndWait True propagate tow timeout w pid) = None"
    if "reports_only (wait4_answers w)"
    using WaitChildren_never [OF assms(2) that] assms(1) by (simp add: RunAndWait_def)
  have d: "launcher_status (RunAndWait False propagate tow timeout w pid) =
             Some (if Exited status then WaitStatus_ExitStatus status else 255)"
    if cs: "child_status w = status" and es: "Exited status \<or> Signaled status"
  proof (cases "Exited status")
    case True
    then have "WaitStatus_ExitStatus status mod 256 = WaitStatus_ExitStatus status"
      using ExitStatus_range [of status] by simp
    then show ?thesis
      using True cs assms(1)
      by (simp add: launcher_status_def RunAndWait_def exit_def exit_status_def cmd_Wait_def)
  next
    case False
    then have "WaitStatus_ExitStatus status = -1"
      by (simp add: WaitStatus_ExitStatus_def)
    then show ?thesis
      using False cs assms(1)
      by (simp add: launcher_status_def RunAndWait_def exit_def exit_status_def cmd_Wait_def)
  qed
  show ?thesis
    using a b c d by blast
qed

theorem supervisor_exit_status_witness:
  "launcher_status (RunAndWait True True True 300
     \<lparr>start = Inr 42, signals = [], child_status = 0x300,
      wait4_answers = [Wait4 77 0, Wait4 42 0x500, Wait4 42 0x300, Wait4 0 0, Wait4 78 9,
                       Wait4Err (Errno ECHILD)]\<rparr> (-1)) = Some 3
   \<and> launcher_status (RunAndWait True True True 300
       \<lparr>start = Inr 42, signals = [], child_status = 0x8B,
        wait4_answers = [Wait4 42 0x8B, Wait4Err (Errno ECHILD)]\<rparr> (-1)) = Some 139
   \<and> launcher_status (RunAndWait True True True 300
       \<lparr>start = Inr 42, signals = [], child_status = 0x300,
        wait4_answers = [Wait4 42 0x300, Wait4Err (Errno 4)]\<rparr> (-1)) = Some 125
   \<and> exit_code (RunAndWait True True True 300
       \<lparr>start = Inr 42, signals = [], child_status = 0x300,
        wait4_answers = [Wait4 42 0x300, Wait4 0 0]\<rparr> (-1)) = None
   \<and> launcher_status (RunAndWait False True True 300
       \<lparr>start = Inr 42, signals = [], child_status = 0x300, wait4_answers = []\<rparr> (-1)) = Some 3"
proof -
  let ?w1 = "\<lparr>start = Inr 42, signals = [], child_status = 0x300,
              wait4_answers = [Wait4 77 0, Wait4 42 0x500, Wait4 42 0x300, Wait4 0 0, Wait4 78 9,
                               Wait4Err (Errno ECHILD)]\<rparr>"
  let ?w2 = "\<lparr>start = Inr 42, signals = [], child_status = 0x8B,
              wait4_answers = [Wait4 42 0x8B, Wait4Err (Errno ECHILD)]\<rparr>"
  let ?w3 = "\<lparr>start = Inr 42, signals = [], child_status = 0x300,
              wait4_answers = [Wait4 42 0x300, Wait4Err (Errno 4)]\<rparr>"
  let ?w4 = "\<lparr>start = Inr 42, signals = [], child_status = 0x300,
              wait4_answers = [Wait4 42 0x300, Wait4 0 0]\<rparr>"
  let ?w5 = "\<lparr>start = Inr 42, signals = [], child_status = 0x300, wait4_answers = []\<rparr>"
  have e: "Exited 0x300" "WaitStatus_ExitStatus 0x300 = 3"
    by (simp_all add: WaitStatus_ExitStatus_def Exited_def)
  have g: "\<not> Exited 0x8B" "Signaled 0x8B" "Signal 0x8B = 11" "CoreDump 0x8B"
    by (simp_all add: Exited_def Signaled_def Signal_def CoreDump_def)
  have 1: "launcher_status (RunAndWait True True True 300 ?w1 (-1)) = Some 3"
    using supervisor_exit_status
            [where w = ?w1 and child = 42 and pre = "[Wait4 77 0, Wait4 42 0x500]"
               and status = "0x300" and post = "[Wait4 0 0, Wait4 78 9]"
               and err = "Errno ECHILD" and rest = "[]"
               and propagate = True and tow = True and timeout = 300 and pid = "-1",
             THEN conjunct1] e
    by (simp add: reports_only_def no_exit_of_def)
  have 2: "launcher_status (RunAndWait True True True 300 ?w2 (-1)) = Some 139"
    using supervisor_exit_status
            [where w = ?w2 and child = 42 and pre = "[]" and status = "0x8B" and post = "[]"
               and err = "Errno ECHILD" and rest = "[]"
               and propagate = True and tow = True and timeout = 300 and pid = "-1",
             THEN conjunct1] g
    by (simp add: reports_only_def no_exit_of_def)
  have 3: "launcher_status (RunAndWait True True True 300 ?w3 (-1)) = Some 125"
    using supervisor_exit_status
            [where w = ?w3 and child = 42 and pre = "[Wait4 42 0x300]" and e = 4 and rest = "[]"
               and propagate = True and tow = True and timeout = 300 and pid = "-1",
             THEN conjunct2, THEN conjunct1]
    by (simp add: reports_only_def ECHILD_def)
  have 4: "exit_code (RunAndWait True True True 300 ?w4 (-1)) = None"
    using supervisor_exit_status
            [where w = ?w4 and child = 42
               and propagate = True and tow = True and timeout = 300 and pid = "-1",
             THEN conjunct2, THEN conjunct2, THEN conjunct1]
    by (simp add: reports_only_def)
  have 5: "launcher_status (RunAndWait False True True 300 ?w5 (-1)) = Some 3"
    using supervisor_exit_status
            [where w = ?w5 and child = 42 and status = "0x300"
               and propagate = True and tow = True and timeout = 300 and pid = "-1",
             THEN conjunct2, THEN conjunct2, THEN conjunct2] e
    by simp
  show ?thesis
    using 1 2 3 4 5 by simp
qed

text \<open>
  The claim C1 as it is written fails. A child killed by \<open>SIGKILL\<close> has the wait status
  9: the supervisor that waits for all children exits with 9, not with \<open>128 + 9\<close>, and
  the supervisor that waits for the direct child only exits with 255. The signal number
  alone is not the rule either: a child that dumped core on \<open>SIGSEGV\<close> has the wait
  status \<open>0x8B\<close> and the supervisor exits with \<open>139 = 128 + 11\<close>. A child that exited
  normally with code 3 does not make the supervisor exit with 3 when \<open>Wait4\<close> then fails
  with \<open>EINTR\<close> (the exit status is 125), nor when a surviving process keeps \<open>Wait4\<close>
  from failing (the supervisor does not exit); and when the pid of the child is reported
  twice, the last report counts.
\<close>

theorem signal_status_counterexample:
  "Signaled 9 \<and> Signal 9 = SIGKILL \<and> (9 :: int) \<noteq> 128 + SIGKILL \<and> (255 :: int) \<noteq> 128 + SIGKILL
   \<and> launcher_status (RunAndWait True True True 300
        \<lparr>start = Inr 42, signals = [], child_status = 9,
         wait4_answers = [Wait4 42 9, Wait4Err (Errno ECHILD)]\<rparr> (-1)) = Some 9
   \<and> launcher_status (RunAndWait False True True 300
        \<lparr>start = Inr 42, signals = [], child_status = 9,
         wait4_answers = [Wait4 42 9, Wait4Err (Errno ECHILD)]\<rparr> (-1)) = Some 255
   \<and> Signaled 0x8B \<and> Signal 0x8B = 11 \<and> CoreDump 0x8B
   \<and> launcher_status (RunAndWait True True True 300
        \<lparr>start = Inr 42, signals = [], child_status = 0x8B,
         wait4_answers = [Wait4 42 0x8B, Wait4Err (Errno ECHILD)]\<rparr> (-1)) = Some 139
   \<and> Exited 0x300 \<and> WaitStatus_ExitStatus 0x300 = 3
   \<and> launcher_status (RunAndWait True True True 300
        \<lparr>start = Inr 42, signals = [], child_status = 0x300,
         wait4_answers = [Wait4 42 0x300, Wait4Err (Errno 4)]\<rparr> (-1)) = Some 125
   \<and> launcher_status (RunAndWait True True True 300
        \<lparr>start = Inr 42, signals = [], child_status = 0x300,
         wait4_answers = [Wait4 42 0x300, Wait4 0 0]\<rparr> (-1)) = None
   \<and> launcher_status (RunAndWait True True True 300
        \<lparr>start = Inr 42, signals = [], child_status = 0x300,
         wait4_answers = [Wait4 42 0x300, Wait4 42 0x500, Wait4Err (Errno ECHILD)]\<rparr> (-1)) = Some 5"
  by (simp add: Signaled_def Signal_def CoreDump_def SIGKILL_def launcher_status_def
      RunAndWait_def WaitChildren_def Stopped_def Continued_def Exited_def childerr_def
      ECHILD_def exit_def exit_status_def cmd_Wait_def WaitStatus_ExitStatus_def kDefaultExit_def)

text \<open>
  C4, as the code has it: with \<open>propagate\<close> set, every received signal is forwarded to
  the pid of the direct child when the pid argument is 0, and to -1, that is to every
  process the supervisor may signal, when the pid argument is -1.
\<close>

theorem forwarded_signal_target:
  assumes "start w = Inr child"
  shows "forwarded (RunAndWait wait True tow timeout w 0) = map (Kill child) (signals w)
         \<and> forwarded (RunAndWait wait True tow timeout w (-1)) = map (Kill (-1)) (signals w)"
  using assms
  by (simp add: RunAndWait_def PropagateSignals_def Let_def split: option.splits prod.splits)

theorem forwarded_signal_target_witness:
  "forwarded (RunAndWait False True False 300
     \<lparr>start = Inr 42, signals = [15, 2], child_status = 0, wait4_answers = []\<rparr> 0)
     = [Kill 42 15, Kill 42 2]
   \<and> forwarded (RunAndWait False True False 300
     \<lparr>start = Inr 42, signals = [15, 2], child_status = 0, wait4_answers = []\<rparr> (-1))
     = [Kill (-1) 15, Kill (-1) 2]"
  using forwarded_signal_target
    [of "\<lparr>start = Inr 42, signals = [15, 2], child_status = 0, wait4_answers = []\<rparr>" 42
        False False 300]
  by simp

text \<open>
  The claim C4 as it is written fails for the pid argument -1: the signal goes to -1, not
  to the pid of the direct child.
\<close>

theorem forwarded_signal_counterexample:
  "forwarded (RunAndWait True True True 300
     \<lparr>start = Inr 42, signals = [15], child_status = 0,
      wait4_answers = [Wait4 42 0, Wait4Err (Errno ECHILD)]\<rparr> (-1)) = [Kill (-1) 15]
   \<and> Kill (-1) 15 \<noteq> Kill 42 15"
  by (simp add: RunAndWait_def PropagateSignals_def WaitChildren_def Stopped_def
      Continued_def Exited_def childerr_def ECHILD_def)

section \<open>The mounts of stage S1\<close>

lemma LogOrFail_log:
  "\<not> Fail flags \<Longrightarrow> LogOrFail flags msg args (w, ev) = Inr (w, ev @ [Logged msg args])"
  by (simp add: LogOrFail_def)

lemma LogOrFail_exit:
  "Fail flags \<Longrightarrow> \<forall>a \<in> set args. \<forall>e. a \<noteq> ArgW e \<Longrightarrow>
     LogOrFail flags msg args (w, ev) =
       Inl (kDefaultExit, (w, ev @ [Logged ''FAILED: %v'' [ArgV (Some (Errorf msg args))]]))"
proof -
  assume f: "Fail flags" and a: "\<forall>a \<in> set args. \<forall>e. a \<noteq> ArgW e"
  have n: "args_As_ExitError as = None \<and> args_As_ExitStatus as = None \<and> \<not> args_Is_ErrHelp as"
    if "\<forall>a \<in> set as. \<forall>e. a \<noteq> ArgW e" for as
    using that
  proof (induction as)
    case Nil
    show ?case by simp
  next
    case (Cons x xs)
    then show ?case by (cases x) auto
  qed
  show ?thesis
    using f n [OF a] by (simp add: LogOrFail_def exit_stage_def exit_def)
qed


















section \<open>The errors of stage S2\<close>

lemma exit_stage_plain:
  assumes "plain_error (Some err)" and "plain_error merr"
  shows "exit_stage (Some (chdir_error dir err merr)) (w, ev) =
           Inl (kDefaultExit, (w, ev @ [Logged ''FAILED: %v'' [ArgV (Some (chdir_error dir err merr))]]))"
  using assms
  by (cases merr) (simp_all add: exit_stage_def exit_def chdir_error_def plain_error_def)

lemma change_dir_fails:
  assumes "Chdir flags \<noteq> []"
    and "k_MkdirAll k w (Chdir flags) (Perms flags) = (w1, merr)"
    and "k_Chdir k w1 (Chdir flags) = (w2, Some err)"
    and "plain_error (Some err)" and "plain_error merr"
  shows "change_dir k flags (w, ev) =
           Inl (kDefaultExit,
                (w2, ev @ [SysMkdirAll (Chdir flags) (Perms flags), SysChdir (Chdir flags),
                           Logged ''FAILED: %v''
                             [ArgV (Some (chdir_error (Chdir flags) err merr))]]))"
proof -
  have "change_dir k flags (w, ev) =
          exit_stage (Some (chdir_error (Chdir flags) err merr))
            (w2, ev @ [SysMkdirAll (Chdir flags) (Perms flags), SysChdir (Chdir flags)])"
    using assms(1-3) by (simp add: change_dir_def chdir_error_def)
  then show ?thesis
    using exit_stage_plain [OF assms(4,5), of "Chdir flags" w2
            "ev @ [SysMkdirAll (Chdir flags) (Perms flags), SysChdir (Chdir flags)]"]
    by simp
qed

lemma drop_uid_cases:
  "drop_uid k flags (w, ev) =
     (case k_Setuid k w (Uid flags) of
        (w', None) \<Rightarrow> Inr (w', ev @ [SysSetuid (Uid flags)])
      | (w', Some err) \<Rightarrow>
          if Fail flags
          then Inl (kDefaultExit,
                    (w', ev @ [SysSetuid (Uid flags),
                               Logged ''FAILED: %v''
                                 [ArgV (Some (Errorf ''Error changing to uid %d - %s\<newline>''
                                                [ArgD (Uid flags), ArgV (Some err)]))]]))
          else Inr (w', ev @ [SysSetuid (Uid flags),
                              Logged ''Error changing to uid %d - %s\<newline>''
                                [ArgD (Uid flags), ArgV (Some err)]]))"
  by (auto simp: drop_uid_def LogOrFail_exit LogOrFail_log split: prod.splits option.splits)

lemma drop_gid_cases:
  "drop_gid k flags (w, ev) =
     (case k_Setgid k w (Gid flags) of
        (w', None) \<Rightarrow> Inr (w', ev @ [SysSetgid (Gid flags)])
      | (w', Some err) \<Rightarrow>
          if Fail flags
          then Inl (kDefaultExit,
                    (w', ev @ [SysSetgid (Gid flags),
                               Logged ''FAILED: %v''
                                 [ArgV (Some (Errorf ''Error changing to gid %d - %s\<newline>''
                                                [ArgD (Gid flags), ArgV (Some err)]))]]))
          else Inr (w', ev @ [SysSetgid (Gid flags),
                              Logged ''Error changing to gid %d - %s\<newline>''
                                [ArgD (Gid flags), ArgV (Some err)]]))"
  by (auto simp: drop_gid_def LogOrFail_exit LogOrFail_log split: prod.splits option.splits)

lemma drop_uid_run:
  assumes "k_Setuid k w (Uid flags) = (w1, e1)" and "Fail flags \<longrightarrow> e1 = None"
  shows "drop_uid k flags (w, ev) = Inr (w1, ev @ setuid_events flags e1)"
  using assms by (cases e1) (simp_all add: drop_uid_cases setuid_events_def)

lemma drop_gid_run:
  assumes "k_Setgid k w (Gid flags) = (w1, e1)" and "Fail flags \<longrightarrow> e1 = None"
  shows "drop_gid k flags (w, ev) = Inr (w1, ev @ setgid_events flags e1)"
  using assms by (cases e1) (simp_all add: drop_gid_cases setgid_events_def)

text \<open>The stage up to the change of directory, when neither id is fatal.\<close>

lemma ids_run:
  assumes "k_Setuid k w (Uid flags) = (w1, e1)" and "k_Setgid k w1 (Gid flags) = (w2, e2)"
    and "Fail flags \<longrightarrow> e1 = None \<and> e2 = None"
  shows "initializePrivileges k flags left (w, ev) =
           and_then (change_dir k flags (w2, ev @ setuid_events flags e1 @ setgid_events flags e2))
             (Exec k left)"
proof -
  have u: "drop_uid k flags (w, ev) = Inr (w1, ev @ setuid_events flags e1)"
    using assms(1,3) by (intro drop_uid_run) simp_all
  have g: "drop_gid k flags (w1, ev @ setuid_events flags e1) =
             Inr (w2, (ev @ setuid_events flags e1) @ setgid_events flags e2)"
    using assms(2,3) by (intro drop_gid_run) simp_all
  show ?thesis
    by (simp add: initializePrivileges_def u g and_then_def)
qed

text \<open>
  C9. Stage S2 with a non-empty \<open>chdir\<close>, from the parsed flags on. Whatever the \<open>fail\<close>
  flag: when the stage reaches the change of directory (no failure of \<open>setuid\<close> or
  \<open>setgid\<close> has been fatal) and \<open>os.Chdir\<close> fails after the best-effort \<open>os.MkdirAll\<close>,
  \<open>initializePrivileges\<close> ends there with exit code 125, nothing is executed, and the
  error it reports carries the error of \<open>os.Chdir\<close> and the result of \<open>os.MkdirAll\<close>
  (these are \<open>*PathError\<close> values, in which \<open>exit\<close> finds no exit code of their own).
  A failure of \<open>setuid\<close>, or of \<open>setgid\<close>, ends the stage at that call with exit code 125
  when \<open>fail=true\<close>; when \<open>fail=false\<close> it is logged and the stage goes on with the change
  of directory and the command, which is executed when no directory is asked for.
\<close>

theorem chdir_failure_is_fatal:
  assumes "k_Setuid k w (Uid flags) = (w1, e1)"
    and "k_Setgid k w1 (Gid flags) = (w2, e2)"
  shows "(Chdir flags \<noteq> [] \<and> (Fail flags \<longrightarrow> e1 = None \<and> e2 = None)
            \<and> k_MkdirAll k w2 (Chdir flags) (Perms flags) = (w3, merr)
            \<and> k_Chdir k w3 (Chdir flags) = (w4, Some err)
            \<and> plain_error (Some err) \<and> plain_error merr \<longrightarrow>
            initializePrivileges k flags left (w, ev) =
              Inl (kDefaultExit,
                   (w4, ev @ setuid_events flags e1 @ setgid_events flags e2
                          @ [SysMkdirAll (Chdir flags) (Perms flags), SysChdir (Chdir flags),
                             Logged ''FAILED: %v''
                               [ArgV (Some (chdir_error (Chdir flags) err merr))]])))
         \<and> (Fail flags \<and> e1 = Some uerr \<longrightarrow>
              initializePrivileges k flags left (w, ev) =
                Inl (kDefaultExit,
                     (w1, ev @ [SysSetuid (Uid flags),
                                Logged ''FAILED: %v''
                                  [ArgV (Some (Errorf ''Error changing to uid %d - %s\<newline>''
                                                 [ArgD (Uid flags), ArgV (Some uerr)]))]])))
         \<and> (Fail flags \<and> e1 = None \<and> e2 = Some gerr \<longrightarrow>
              initializePrivileges k flags left (w, ev) =
                Inl (kDefaultExit,
                     (w2, ev @ [SysSetuid (Uid flags), SysSetgid (Gid flags),
                                Logged ''FAILED: %v''
                                  [ArgV (Some (Errorf ''Error changing to gid %d - %s\<newline>''
                                                 [ArgD (Gid flags), ArgV (Some gerr)]))]])))
         \<and> (\<not> Fail flags \<longrightarrow>
              initializePrivileges k flags left (w, ev) =
                and_then
                  (change_dir k flags (w2, ev @ setuid_events flags e1 @ setgid_events flags e2))
                  (Exec k left))
         \<and> (\<not> Fail flags \<and> Chdir flags = [] \<and> left \<noteq> []
              \<and> k_LookPath k w2 (hd left) = Inr binary
              \<and> k_Exec k w2 binary left (k_Environ k w2 @ [''FAKETREE=true'']) = None \<longrightarrow>
              initializePrivileges k flags left (w, ev) =
                Inr (w2, ev @ setuid_events flags e1 @ setgid_events flags e2
                          @ [SysExec binary left (k_Environ k w2 @ [''FAKETREE=true''])]))"
proof -
  have a: "initializePrivileges k flags left (w, ev) =
              Inl (kDefaultExit,
                   (w4, ev @ setuid_events flags e1 @ setgid_events flags e2
                          @ [SysMkdirAll (Chdir flags) (Perms flags), SysChdir (Chdir flags),
                             Logged ''FAILED: %v''
                               [ArgV (Some (chdir_error (Chdir flags) err merr))]]))"
    if c: "Chdir flags \<noteq> []" and f: "Fail flags \<longrightarrow> e1 = None \<and> e2 = None"
      and m: "k_MkdirAll k w2 (Chdir flags) (Perms flags) = (w3, merr)"
      and d: "k_Chdir k w3 (Chdir flags) = (w4, Some err)"
      and p: "plain_error (Some err)" "plain_error merr"
    using change_dir_fails [OF c m d p, of "ev @ setuid_events flags e1 @ setgid_events flags e2"]
    by (simp add: ids_run [OF assms f] and_then_def)
  have b: "initializePrivileges k flags left (w, ev) =
             Inl (kDefaultExit,
                  (w1, ev @ [SysSetuid (Uid flags),
                             Logged ''FAILED: %v''
                               [ArgV (Some (Errorf ''Error changing to uid %d - %s\<newline>''
                                              [ArgD (Uid flags), ArgV (Some uerr)]))]]))"
    if "Fail flags" "e1 = Some uerr"
    using that assms(1)
    by (simp add: initializePrivileges_def drop_uid_cases and_then_def)
  have c: "initializePrivileges k flags left (w, ev) =
             Inl (kDefaultExit,
                  (w2, ev @ [SysSetuid (Uid flags), SysSetgid (Gid flags),
                             Logged ''FAILED: %v''
                               [ArgV (Some (Errorf ''Error changing to gid %d - %s\<newline>''
                                              [ArgD (Gid flags), ArgV (Some gerr)]))]]))"
    if "Fail flags" "e1 = None" "e2 = Some gerr"
    using that assms
    by (simp add: initializePrivileges_def drop_uid_cases drop_gid_cases and_then_def)
  have d: "initializePrivileges k flags left (w, ev) =
             and_then
               (change_dir k flags (w2, ev @ setuid_events flags e1 @ setgid_events flags e2))
               (Exec k left)"
    if "\<not> Fail flags"
    using that by (intro ids_run [OF assms]) simp
  have e: "initializePrivileges k flags left (w, ev) =
             Inr (w2, ev @ setuid_events flags e1 @ setgid_events flags e2
                       @ [SysExec binary left (k_Environ k w2 @ [''FAKETREE=true''])])"
    if "\<not> Fail flags" "Chdir flags = []" "left \<noteq> []"
      "k_LookPath k w2 (hd left) = Inr binary"
      "k_Exec k w2 binary left (k_Environ k w2 @ [''FAKETREE=true'']) = None"
    using that by (simp add: d change_dir_def and_then_def Exec_def)
  show ?thesis
    using a b c d e by blast
qed

theorem chdir_failure_is_fatal_witness:
  "initializePrivileges (example_kernel\<lparr>k_Setgid := \<lambda>w g. (w, Some (Errno 1))\<rparr>)
       example_flags [''ls''] (0, []) =
     Inl (kDefaultExit,
          (0, [SysSetuid 1000,
               Logged ''Error changing to uid %d - %s\<newline>'' [ArgD 1000, ArgV (Some (Errno 1))],
               SysSetgid 1000,
               Logged ''Error changing to gid %d - %s\<newline>'' [ArgD 1000, ArgV (Some (Errno 1))],
               SysMkdirAll ''/work'' 0x1ED, SysChdir ''/work'',
               Logged ''FAILED: %v'' [ArgV (Some (chdir_error ''/work'' (Errno 2) None))]]))
   \<and> initializePrivileges (example_kernel\<lparr>k_Setuid := \<lambda>w u. (w, None)\<rparr>)
         (example_flags\<lparr>Fail := True\<rparr>) [''ls''] (0, []) =
       Inl (kDefaultExit,
            (0, [SysSetuid 1000, SysSetgid 1000,
                 SysMkdirAll ''/work'' 0x1ED, SysChdir ''/work'',
                 Logged ''FAILED: %v'' [ArgV (Some (chdir_error ''/work'' (Errno 2) None))]]))
   \<and> initializePrivileges example_kernel (example_flags\<lparr>Fail := True\<rparr>) [''ls''] (0, []) =
       Inl (kDefaultExit,
            (0, [SysSetuid 1000,
                 Logged ''FAILED: %v''
                   [ArgV (Some (Errorf ''Error changing to uid %d - %s\<newline>''
                                  [ArgD 1000, ArgV (Some (Errno 1))]))]]))
   \<and> initializePrivileges
         (example_kernel\<lparr>k_Setuid := \<lambda>w u. (w, None), k_Setgid := \<lambda>w g. (w, Some (Errno 1))\<rparr>)
         (example_flags\<lparr>Fail := True\<rparr>) [''ls''] (0, []) =
       Inl (kDefaultExit,
            (0, [SysSetuid 1000, SysSetgid 1000,
                 Logged ''FAILED: %v''
                   [ArgV (Some (Errorf ''Error changing to gid %d - %s\<newline>''
                                  [ArgD 1000, ArgV (Some (Errno 1))]))]]))
   \<and> initializePrivileges example_kernel (example_flags\<lparr>Chdir := []\<rparr>) [''ls''] (0, []) =
       Inr (0, [SysSetuid 1000,
                Logged ''Error changing to uid %d - %s\<newline>'' [ArgD 1000, ArgV (Some (Errno 1))],
                SysSetgid 1000,
                SysExec ''ls'' [''ls''] [''FAKETREE=true'']])
   \<and> initializePrivileges example_kernel example_flags [''ls''] (0, []) =
       Inl (kDefaultExit,
            (0, [SysSetuid 1000,
                 Logged ''Error changing to uid %d - %s\<newline>'' [ArgD 1000, ArgV (Some (Errno 1))],
                 SysSetgid 1000,
                 SysMkdirAll ''/work'' 0x1ED, SysChdir ''/work'',
                 Logged ''FAILED: %v'' [ArgV (Some (chdir_error ''/work'' (Errno 2) None))]]))"
proof -
  let ?kg = "example_kernel\<lparr>k_Setgid := \<lambda>w g. (w, Some (Errno 1))\<rparr>"
  let ?ku = "example_kernel\<lparr>k_Setuid := \<lambda>w u. (w, None)\<rparr>"
  let ?kug = "example_kernel\<lparr>k_Setuid := \<lambda>w u. (w, None), k_Setgid := \<lambda>w g. (w, Some (Errno 1))\<rparr>"
  have 1: "initializePrivileges ?kg example_flags [''ls''] (0, []) =
     Inl (kDefaultExit,
          (0, [SysSetuid 1000,
               Logged ''Error changing to uid %d - %s\<newline>'' [ArgD 1000, ArgV (Some (Errno 1))],
               SysSetgid 1000,
               Logged ''Error changing to gid %d - %s\<newline>'' [ArgD 1000, ArgV (Some (Errno 1))],
               SysMkdirAll ''/work'' 0x1ED, SysChdir ''/work'',
               Logged ''FAILED: %v'' [ArgV (Some (chdir_error ''/work'' (Errno 2) None))]]))"
    using chdir_failure_is_fatal
            [where k = ?kg and flags = example_flags and w = 0 and ev = "[]" and left = "[''ls'']"
               and ?w1.0 = 0 and ?e1.0 = "Some (Errno 1)" and ?w2.0 = 0 and ?e2.0 = "Some (Errno 1)"
               and ?w3.0 = 0 and merr = None and ?w4.0 = 0 and err = "Errno 2",
               THEN conjunct1]
    by (simp add: example_flags_def example_kernel_def plain_error_def setuid_events_def
        setgid_events_def)
  have 2: "initializePrivileges ?ku (example_flags\<lparr>Fail := True\<rparr>) [''ls''] (0, []) =
       Inl (kDefaultExit,
            (0, [SysSetuid 1000, SysSetgid 1000,
                 SysMkdirAll ''/work'' 0x1ED, SysChdir ''/work'',
                 Logged ''FAILED: %v'' [ArgV (Some (chdir_error ''/work'' (Errno 2) None))]]))"
    using chdir_failure_is_fatal
            [where k = ?ku and flags = "example_flags\<lparr>Fail := True\<rparr>" and w = 0 and ev = "[]"
               and left = "[''ls'']"
               and ?w1.0 = 0 and ?e1.0 = None and ?w2.0 = 0 and ?e2.0 = None
               and ?w3.0 = 0 and merr = None and ?w4.0 = 0 and err = "Errno 2",
               THEN conjunct1]
    by (simp add: example_flags_def example_kernel_def plain_error_def setuid_events_def
        setgid_events_def)
  have 3: "initializePrivileges example_kernel (example_flags\<lparr>Fail := True\<rparr>) [''ls''] (0, []) =
       Inl (kDefaultExit,
            (0, [SysSetuid 1000,
                 Logged ''FAILED: %v''
                   [ArgV (Some (Errorf ''Error changing to uid %d - %s\<newline>''
                                  [ArgD 1000, ArgV (Some (Errno 1))]))]]))"
    using chdir_failure_is_fatal
            [where k = example_kernel and flags = "example_flags\<lparr>Fail := True\<rparr>" and w = 0
               and ev = "[]" and left = "[''ls'']"
               and ?w1.0 = 0 and ?e1.0 = "Some (Errno 1)" and ?w2.0 = 0 and ?e2.0 = None
               and uerr = "Errno 1",
               THEN conjunct2, THEN conjunct1]
    by (simp add: example_flags_def example_kernel_def)
  have 4: "initializePrivileges ?kug (example_flags\<lparr>Fail := True\<rparr>) [''ls''] (0, []) =
       Inl (kDefaultExit,
            (0, [SysSetuid 1000, SysSetgid 1000,
                 Logged ''FAILED: %v''
                   [ArgV (Some (Errorf ''Error changing to gid %d - %s\<newline>''
                                  [ArgD 1000, ArgV (Some (Errno 1))]))]]))"
    using chdir_failure_is_fatal
            [where k = ?kug and flags = "example_flags\<lparr>Fail := True\<rparr>" and w = 0
               and ev = "[]" and left = "[''ls'']"
               and ?w1.0 = 0 and ?e1.0 = None and ?w2.0 = 0 and ?e2.0 = "Some (Errno 1)"
               and gerr = "Errno 1",
               THEN conjunct2, THEN conjunct2, THEN conjunct1]
    by (simp add: example_flags_def example_kernel_def)
  have 5: "initializePrivileges example_kernel (example_flags\<lparr>Chdir := []\<rparr>) [''ls''] (0, []) =
       Inr (0, [SysSetuid 1000,
                Logged ''Error changing to uid %d - %s\<newline>'' [ArgD 1000, ArgV (Some (Errno 1))],
                SysSetgid 1000,
                SysExec ''ls'' [''ls''] [''FAKETREE=true'']])"
    using chdir_failure_is_fatal
            [where k = example_kernel and flags = "example_flags\<lparr>Chdir := []\<rparr>" and w = 0
               and ev = "[]" and left = "[''ls'']"
               and ?w1.0 = 0 and ?e1.0 = "Some (Errno 1)" and ?w2.0 = 0 and ?e2.0 = None
               and binary = "''ls''",
               THEN conjunct2, THEN conjunct2, THEN conjunct2, THEN conjunct2]
    by (simp add: example_flags_def example_kernel_def setuid_events_def setgid_events_def)
  have 6: "initializePrivileges example_kernel example_flags [''ls''] (0, []) =
       Inl (kDefaultExit,
            (0, [SysSetuid 1000,
                 Logged ''Error changing to uid %d - %s\<newline>'' [ArgD 1000, ArgV (Some (Errno 1))],
                 SysSetgid 1000,
                 SysMkdirAll ''/work'' 0x1ED, SysChdir ''/work'',
                 Logged ''FAILED: %v'' [ArgV (Some (chdir_error ''/work'' (Errno 2) None))]]))"
    using chdir_failure_is_fatal
            [where k = example_kernel and flags = example_flags and w = 0
               and ev = "[]" and left = "[''ls'']"
               and ?w1.0 = 0 and ?e1.0 = "Some (Errno 1)" and ?w2.0 = 0 and ?e2.0 = None,
               THEN conjunct2, THEN conjunct2, THEN conjunct2, THEN conjunct1]
    by (simp add: example_flags_def example_kernel_def setuid_events_def setgid_events_def
        change_dir_def exit_stage_def exit_def chdir_error_def and_then_def)
  show ?thesis
    using 1 2 3 4 5 6 by simp
qed

section \<open>The ids of the command line\<close>

lemma digit_of_digit:
  assumes "0 \<le> d" and "d < 10"
  shows "digit_of (''0123456789'' ! nat d) = Some d"
proof -
  have "d = 0 \<or> d = 1 \<or> d = 2 \<or> d = 3 \<or> d = 4 \<or> d = 5 \<or> d = 6 \<or> d = 7 \<or> d = 8 \<or> d = 9"
    using assms by presburger
  then show ?thesis
    by (elim disjE) (simp_all add: digit_of_def)
qed

lemma digit_not_sign:
  assumes "0 \<le> d" and "d < 10"
  shows "''0123456789'' ! nat d \<noteq> CHR ''-'' \<and> ''0123456789'' ! nat d \<noteq> CHR ''+''"
proof -
  have "d = 0 \<or> d = 1 \<or> d = 2 \<or> d = 3 \<or> d = 4 \<or> d = 5 \<or> d = 6 \<or> d = 7 \<or> d = 8 \<or> d = 9"
    using assms by presburger
  then show ?thesis
    by (elim disjE) simp_all
qed

lemma parse_digits_append:
  "parse_digits (xs @ ys) acc =
     (case parse_digits xs acc of None \<Rightarrow> None | Some a \<Rightarrow> parse_digits ys a)"
  by (induction xs arbitrary: acc) (auto split: option.splits)

lemma decimal_nonempty: "decimal n \<noteq> []"
  by (subst decimal.simps) simp

lemma hd_decimal:
  "0 \<le> n \<Longrightarrow> hd (decimal n) \<noteq> CHR ''-'' \<and> hd (decimal n) \<noteq> CHR ''+''"
proof (induction n rule: decimal.induct)
  case (1 n)
  show ?case
  proof (cases "n < 10")
    case True
    then show ?thesis
      using digit_not_sign [of n] "1.prems" by (subst (1 2) decimal.simps) simp
  next
    case False
    then have "hd (decimal (n div 10)) \<noteq> CHR ''-'' \<and> hd (decimal (n div 10)) \<noteq> CHR ''+''"
      using "1.IH" "1.prems" by simp
    then show ?thesis
      using False decimal_nonempty [of "n div 10"] by (subst (1 2) decimal.simps) simp
  qed
qed

lemma parse_decimal:
  "0 \<le> n \<Longrightarrow> parse_digits (decimal n) 0 = Some n"
proof (induction n rule: decimal.induct)
  case (1 n)
  show ?case
  proof (cases "n < 10")
    case True
    then show ?thesis
      using digit_of_digit [of n] "1.prems" by (subst decimal.simps) simp
  next
    case False
    then have ih: "parse_digits (decimal (n div 10)) 0 = Some (n div 10)"
      using "1.IH" "1.prems" by simp
    have d: "digit_of (''0123456789'' ! nat (n mod 10)) = Some (n mod 10)"
      by (rule digit_of_digit) simp_all
    show ?thesis
      using False by (subst decimal.simps) (simp add: parse_digits_append ih d)
  qed
qed

text \<open>\<open>strconv.Atoi\<close> reads what \<open>strconv.Itoa\<close> writes for an id.\<close>

lemma Atoi_Itoa:
  assumes "0 \<le> n" and "n < 9223372036854775808"
  shows "Atoi (Itoa n) = Inr n"
  using assms hd_decimal [of n] decimal_nonempty [of n]
  by (simp add: Atoi_def Itoa_def parse_decimal)

lemma Atoi_nonempty: "Atoi s = Inr n \<Longrightarrow> s \<noteq> []"
  by (auto simp: Atoi_def)

lemma parseLongArg_uid:
  "parseLongArg h ''--uid'' (v # a) fs = Inr (a, fs\<lparr>fs_uid := v\<rparr>)"
proof -
  have "SplitN ''uid'' CHR ''='' 2 = [''uid'']"
    by (simp add: numeral_2_eq_2)
  then show ?thesis
    by (simp add: parseLongArg_def FlagSet_Set_def formal_def NoOptDefVal_def Let_def)
qed

lemma FlagSet_Parse_uid:
  "FlagSet_Parse h opts [''--uid'', s] =
     Inr \<lparr>fs_opts = opts, fs_uid = s, fs_gid = Itoa (Gid opts), fs_mounts = [], fs_args = []\<rparr>"
  by (simp add: FlagSet_Parse_def parseLongArg_uid)

lemma resolve_ids_numeric:
  assumes "Atoi s = Inr n" and "0 \<le> n"
  shows "resolve_ids h s gid opts =
           (if Root opts then Inr (opts\<lparr>Uid := 0, Gid := 0\<rparr>)
            else if gid = [] then Inr (opts\<lparr>Uid := n, Gid := 0\<rparr>)
            else (case ParseOrLookupGroup h gid of
                    Inl err \<Rightarrow> Inl err
                  | Inr g \<Rightarrow> Inr (opts\<lparr>Uid := n, Gid := g\<rparr>)))"
  using assms Atoi_nonempty [OF assms(1)]
  by (simp add: resolve_ids_def ParseOrLookupUser_def split: sum.splits)

text \<open>
  C10, as the code has it. A string \<open>s\<close> that \<open>strconv.Atoi\<close> reads as \<open>n \<ge> 0\<close> makes
  \<open>ParseOrLookupUser\<close> return \<open>(n, 0)\<close> on every host, so without a look at the user
  database. In \<open>Flags.Parse\<close>, with such a \<open>--uid\<close>, the final \<open>Gid\<close> is: 0 when \<open>--root\<close>
  is set; else 0, the gid that \<open>ParseOrLookupUser\<close> returned, when the value of \<open>--gid\<close>
  is the empty string; else the result of \<open>ParseOrLookupGroup\<close> on the value of \<open>--gid\<close>.
  Without a \<open>--gid\<close> on the command line that value is the decimal form of the \<open>Gid\<close> the
  flags start with (in \<open>NewFlags\<close> the gid of the caller), so that the final \<open>Gid\<close> is that
  gid.
\<close>

theorem numeric_uid_gid:
  assumes "Atoi s = Inr n" and "0 \<le> n"
  shows "ParseOrLookupUser h s = Inr (n, 0)
         \<and> (FlagSet_Parse h opts argv = Inr fs \<and> fs_uid fs = s
              \<and> parse_mounts (fs_mounts fs) (fs_opts fs) = Inr opts1 \<longrightarrow>
              Flags_Parse h opts argv =
                (if Root opts1 then Inr (fs_args fs, opts1\<lparr>Uid := 0, Gid := 0\<rparr>)
                 else if fs_gid fs = [] then Inr (fs_args fs, opts1\<lparr>Uid := n, Gid := 0\<rparr>)
                 else (case ParseOrLookupGroup h (fs_gid fs) of
                         Inl err \<Rightarrow> Inl err
                       | Inr g \<Rightarrow> Inr (fs_args fs, opts1\<lparr>Uid := n, Gid := g\<rparr>))))
         \<and> (\<not> Root opts \<and> 0 \<le> Gid opts \<and> Gid opts < 9223372036854775808 \<longrightarrow>
              Flags_Parse h opts [''--uid'', s] = Inr ([], opts\<lparr>Uid := n, Gid := Gid opts\<rparr>))"
proof -
  have a: "ParseOrLookupUser h s = Inr (n, 0)"
    using assms by (simp add: ParseOrLookupUser_def)
  have b: "Flags_Parse h opts argv =
             (if Root opts1 then Inr (fs_args fs, opts1\<lparr>Uid := 0, Gid := 0\<rparr>)
              else if fs_gid fs = [] then Inr (fs_args fs, opts1\<lparr>Uid := n, Gid := 0\<rparr>)
              else (case ParseOrLookupGroup h (fs_gid fs) of
                      Inl err \<Rightarrow> Inl err
                    | Inr g \<Rightarrow> Inr (fs_args fs, opts1\<lparr>Uid := n, Gid := g\<rparr>)))"
    if "FlagSet_Parse h opts argv = Inr fs" "fs_uid fs = s"
      "parse_mounts (fs_mounts fs) (fs_opts fs) = Inr opts1"
    using that
    by (simp add: Flags_Parse_def resolve_ids_numeric [OF assms] split: sum.splits)
  have c: "Flags_Parse h opts [''--uid'', s] = Inr ([], opts\<lparr>Uid := n, Gid := Gid opts\<rparr>)"
    if "\<not> Root opts" "0 \<le> Gid opts" "Gid opts < 9223372036854775808"
  proof -
    have g: "ParseOrLookupGroup h (Itoa (Gid opts)) = Inr (Gid opts)"
      using that by (simp add: ParseOrLookupGroup_def Atoi_Itoa)
    have ne: "Itoa (Gid opts) \<noteq> []"
      using that decimal_nonempty by (simp add: Itoa_def)
    show ?thesis
      using that g ne
      by (simp add: Flags_Parse_def FlagSet_Parse_uid resolve_ids_numeric [OF assms])
  qed
  show ?thesis
    using a b c by blast
qed

theorem numeric_uid_gid_witness:
  "Atoi ''5'' = Inr 5 \<and> (0 :: int) \<le> 5
   \<and> ParseOrLookupUser example_host ''5'' = Inr (5, 0)
   \<and> Flags_Parse example_host (NewFlags example_host) [''--uid'', ''5'', ''--gid'', ''staff''] =
       Inr ([], (NewFlags example_host)\<lparr>Uid := 5, Gid := 50\<rparr>)
   \<and> Flags_Parse example_host (NewFlags example_host) [''--uid'', ''5''] =
       Inr ([], (NewFlags example_host)\<lparr>Uid := 5, Gid := 1000\<rparr>)"
proof -
  have a: "Atoi ''5'' = Inr 5"
    by code_simp
  have p: "FlagSet_Parse example_host (NewFlags example_host) [''--uid'', ''5'', ''--gid'', ''staff''] =
             Inr \<lparr>fs_opts = NewFlags example_host, fs_uid = ''5'', fs_gid = ''staff'',
                  fs_mounts = [], fs_args = []\<rparr>"
    by code_simp
  have g: "ParseOrLookupGroup example_host ''staff'' = Inr 50"
    by code_simp
  have d: "\<not> Root (NewFlags example_host)" "Gid (NewFlags example_host) = 1000"
    by (simp_all add: NewFlags_def example_host_def)
  show ?thesis
    using numeric_uid_gid
            [where s = "''5''" and n = 5 and h = example_host and opts = "NewFlags example_host"
               and argv = "[''--uid'', ''5'', ''--gid'', ''staff'']"
               and fs = "\<lparr>fs_opts = NewFlags example_host, fs_uid = ''5'', fs_gid = ''staff'',
                           fs_mounts = [], fs_args = []\<rparr>"
               and ?opts1.0 = "NewFlags example_host"]
    by (simp add: a p g d)
qed

text \<open>
  The final \<open>Gid\<close> is not always the one of the \<open>--gid\<close> flag: with \<open>--gid ""\<close> it is the 0
  that \<open>ParseOrLookupUser\<close> returned for the numeric uid, and with \<open>--root\<close> it is 0
  whatever \<open>--gid\<close> says. The caller has gid 1000.
\<close>

theorem gid_flag_counterexample:
  "Flags_Parse example_host (NewFlags example_host) [''--uid'', ''5'', ''--gid'', []] =
     Inr ([], (NewFlags example_host)\<lparr>Uid := 5, Gid := 0\<rparr>)
   \<and> Flags_Parse example_host (NewFlags example_host) [''--root'', ''--uid'', ''5'', ''--gid'', ''7''] =
       Inr ([], (NewFlags example_host)\<lparr>Root := True, Uid := 0, Gid := 0\<rparr>)
   \<and> Gid (NewFlags example_host) = 1000"
  by code_simp

section \<open>The command line of the next stage\<close>

text \<open>
  C5 at a failing input, on a host whose caller has uid and gid 1000. The command line
  \<open>--mount a:b:bind,recursive,private,type=ext4\<close> is accepted and gives one mount with
  the flags \<open>MS_BIND|MS_REC|MS_PRIVATE\<close>; \<open>Args\<close> writes that mount without its flags; and
  the command line that \<open>Args\<close> wrote parses to a mount with no flags at all. Likewise
  \<open>--faketree ""\<close> gives an empty path, which \<open>Args\<close> leaves out, so that the next parse
  takes the path of the running program.
\<close>

theorem args_roundtrip_fails:
  "Flags_Parse example_host (NewFlags example_host)
       [''--mount'', ''a:b:bind,recursive,private,type=ext4''] =
     Inr ([], (NewFlags example_host)
                \<lparr>Mount := [\<lparr>Source = ''a'', Target = ''b'',
                             Flags = MS_BIND OR MS_REC OR MS_PRIVATE,
                             Fstype = ''ext4'', Data = []\<rparr>]\<rparr>)
   \<and> Args example_host
         ((NewFlags example_host)
            \<lparr>Mount := [\<lparr>Source = ''a'', Target = ''b'',
                         Flags = MS_BIND OR MS_REC OR MS_PRIVATE,
                         Fstype = ''ext4'', Data = []\<rparr>]\<rparr>) =
       [''--uid'', ''1000'', ''--gid'', ''1000'', ''--faketree'', ''/usr/bin/faketree'',
        ''--mount'', ''a:b:type=ext4'']
   \<and> Flags_Parse example_host (NewFlags example_host)
         [''--uid'', ''1000'', ''--gid'', ''1000'', ''--faketree'', ''/usr/bin/faketree'',
          ''--mount'', ''a:b:type=ext4''] =
       Inr ([], (NewFlags example_host)
                  \<lparr>Mount := [\<lparr>Source = ''a'', Target = ''b'', Flags = 0,
                               Fstype = ''ext4'', Data = []\<rparr>]\<rparr>)
   \<and> MS_BIND OR MS_REC OR MS_PRIVATE \<noteq> (0 :: uintptr)
   \<and> Flags_Parse example_host (NewFlags example_host) [''--faketree'', []] =
       Inr ([], (NewFlags example_host)\<lparr>Faketree := []\<rparr>)
   \<and> Args example_host ((NewFlags example_host)\<lparr>Faketree := []\<rparr>) =
       [''--uid'', ''1000'', ''--gid'', ''1000'']
   \<and> Flags_Parse example_host (NewFlags example_host) [''--uid'', ''1000'', ''--gid'', ''1000''] =
       Inr ([], NewFlags example_host)
   \<and> Faketree (NewFlags example_host) \<noteq> []"
  by code_simp

end
